theory Spec2Isabelle
  imports Main
begin

section \<open>JavaScript values and failures\<close>

text \<open>
  The module \<^verbatim>\<open>src/errors.ts\<close> registers ten error codes and builds error objects for
  them. Its constructors take \<^verbatim>\<open>...args: any[]\<close>, so the arguments are JavaScript values
  of any kind, and the message rules apply conversions to them that may run code of the
  argument and throw.

  What a statement can throw. \<^verbatim>\<open>assert(cond, message)\<close> throws an AssertionError carrying
  the message given (\<open>None\<close> when \<^verbatim>\<open>assert\<close> is called without one); the runtime throws a
  TypeError when a property of \<^verbatim>\<open>undefined\<close> or \<^verbatim>\<open>null\<close> is read, when a value that is not
  a function is called, when a BigInt is serialised, when a symbol is converted to a
  string, and when a property is defined on a frozen object; a method, getter or
  inspector of an argument throws what it likes.
\<close>

datatype type_error =
    ReadPropertyOfNullish string  \<comment> \<open>the property that was read\<close>
  | NotAFunction string           \<comment> \<open>the method that was called\<close>
  | CannotSerializeBigInt
  | CannotConvertSymbol
  | ObjectNotExtensible string    \<comment> \<open>the property that was to be defined\<close>
  | AssignToReadOnly string       \<comment> \<open>the property that was assigned\<close>

datatype thrown =
    AssertionError "string option"
  | TypeError_thrown type_error
  | Thrown_by_argument string     \<comment> \<open>thrown by code of an argument, with a label for it\<close>

text \<open>
  The values. The primitives the message rules can tell apart and URL objects (the one
  object type a rule reads a property of) are modelled as they are. Any other value (a
  number, a symbol, an array, an object of any class) is \<open>JOther\<close>, described by what each
  operation of the language that a rule applies to an argument does on it:
  \<^item> whether it is truthy;
  \<^item> what \<^verbatim>\<open>`${v}`\<close> gives;
  \<^item> what \<^verbatim>\<open>JSON.stringify(v)\<close> gives (\<open>None\<close> for \<^verbatim>\<open>undefined\<close>);
  \<^item> what \<^verbatim>\<open>v.includes('.')\<close> gives, as a truth value;
  \<^item> what \<^verbatim>\<open>v.protocol\<close> gives;
  \<^item> what \<^verbatim>\<open>v.length\<close> gives (\<open>Some n\<close> when it is the number \<open>n\<close>, \<open>None\<close> for anything else).

  Each of these but the first may throw. They are taken to be pure: an operation gives the
  same result each time it is applied and changes no state of the module.
  Strings are lists of code units (\<open>length\<close> is \<^verbatim>\<open>.length\<close>, \<open>take\<close> is \<^verbatim>\<open>.slice(0, n)\<close>).
\<close>

datatype jsval =
    JUndefined
  | JNull
  | JBool bool
  | JBigInt int
  | JStr string
  | JURL string string  \<comment> \<open>a URL object: its \<^verbatim>\<open>href\<close> and its \<^verbatim>\<open>protocol\<close>\<close>
  | JOther bool "thrown + string" "thrown + string option" "thrown + bool"
      "thrown + jsval" "thrown + nat option"

text \<open>
  The platform capabilities the module consumes without defining them:
  \<^verbatim>\<open>process.platform === 'win32'\<close>, \<^verbatim>\<open>util.inspect\<close>, and the conversions \<^verbatim>\<open>util.format\<close>
  applies to an argument for a placeholder kind (the character after \<^verbatim>\<open>%\<close>). Both
  functions may throw: \<^verbatim>\<open>util.inspect\<close> runs a custom inspector of the value, \<^verbatim>\<open>%s\<close> runs a
  \<^verbatim>\<open>toString\<close> of its own, \<^verbatim>\<open>%j\<close> serialises.
\<close>

record platform =
  isWindows :: bool
  inspect :: "jsval \<Rightarrow> thrown + string"
  format_value :: "char \<Rightarrow> jsval \<Rightarrow> thrown + string"

subsection \<open>Conversions of the language\<close>

definition apostrophe :: string where
  "apostrophe = [CHR 0x27]"

definition digits :: string where
  "digits = ''0123456789''"

fun to_decimal :: "nat \<Rightarrow> string" where
  "to_decimal n =
     (if n < 10 then [digits ! n] else to_decimal (n div 10) @ [digits ! (n mod 10)])"

declare to_decimal.simps [simp del]

definition int_to_decimal :: "int \<Rightarrow> string" where
  "int_to_decimal i = (if i < 0 then ''-'' @ to_decimal (nat (- i)) else to_decimal (nat i))"

text \<open>\<^verbatim>\<open>ToString\<close>, as a template literal \<^verbatim>\<open>`${v}`\<close> applies it.\<close>

fun to_string :: "jsval \<Rightarrow> thrown + string" where
  "to_string JUndefined = Inr ''undefined''"
| "to_string JNull = Inr ''null''"
| "to_string (JBool b) = Inr (if b then ''true'' else ''false'')"
| "to_string (JBigInt i) = Inr (int_to_decimal i)"
| "to_string (JStr s) = Inr s"
| "to_string (JURL href protocol) = Inr href"
| "to_string (JOther t string json includes protocol len) = string"

text \<open>
  A template literal converts its substitutions from left to right and joins the pieces;
  the first conversion that throws ends it. A piece is the result of a conversion, or
  \<open>Inr\<close> of a literal part.
\<close>

fun template_literal :: "(thrown + string) list \<Rightarrow> thrown + string" where
  "template_literal [] = Inr []"
| "template_literal (Inl t # pieces) = Inl t"
| "template_literal (Inr s # pieces) =
     (case template_literal pieces of Inl t \<Rightarrow> Inl t | Inr rest \<Rightarrow> Inr (s @ rest))"

text \<open>\<^verbatim>\<open>ToBoolean\<close>, as \<^verbatim>\<open>v ? a : b\<close> and \<^verbatim>\<open>!v\<close> apply it.\<close>

fun truthy :: "jsval \<Rightarrow> bool" where
  "truthy JUndefined = False"
| "truthy JNull = False"
| "truthy (JBool b) = b"
| "truthy (JBigInt i) = (i \<noteq> 0)"
| "truthy (JStr s) = (s \<noteq> [])"
| "truthy (JURL href protocol) = True"
| "truthy (JOther t string json includes protocol len) = t"

text \<open>
  \<^verbatim>\<open>JSON.stringify\<close>: \<^verbatim>\<open>undefined\<close> gives \<^verbatim>\<open>undefined\<close>, a BigInt throws, a string is
  quoted with the escapes of ECMAScript's QuoteJSONString, a URL object serialises its
  \<^verbatim>\<open>href\<close> (through \<^verbatim>\<open>toJSON\<close>).
\<close>

definition hex_digits :: string where
  "hex_digits = ''0123456789abcdef''"

definition json_escape :: "char \<Rightarrow> string" where
  "json_escape c =
     (if c = CHR 0x22 then [CHR 0x5C, CHR 0x22]
      else if c = CHR 0x5C then [CHR 0x5C, CHR 0x5C]
      else if c = CHR 0x08 then [CHR 0x5C, CHR ''b'']
      else if c = CHR 0x0C then [CHR 0x5C, CHR ''f'']
      else if c = CHR 0x0A then [CHR 0x5C, CHR ''n'']
      else if c = CHR 0x0D then [CHR 0x5C, CHR ''r'']
      else if c = CHR 0x09 then [CHR 0x5C, CHR ''t'']
      else if (of_char c :: nat) < 32
        then [CHR 0x5C, CHR ''u'', CHR ''0'', CHR ''0'',
              hex_digits ! (of_char c div 16), hex_digits ! (of_char c mod 16)]
      else [c])"

definition json_quote :: "string \<Rightarrow> string" where
  "json_quote s = [CHR 0x22] @ concat (map json_escape s) @ [CHR 0x22]"

fun JSON_stringify :: "jsval \<Rightarrow> thrown + jsval" where
  "JSON_stringify JUndefined = Inr JUndefined"
| "JSON_stringify JNull = Inr (JStr ''null'')"
| "JSON_stringify (JBool b) = Inr (JStr (if b then ''true'' else ''false''))"
| "JSON_stringify (JBigInt i) = Inl (TypeError_thrown CannotSerializeBigInt)"
| "JSON_stringify (JStr s) = Inr (JStr (json_quote s))"
| "JSON_stringify (JURL href protocol) = Inr (JStr (json_quote href))"
| "JSON_stringify (JOther t string json includes protocol len) =
     (case json of
        Inl thrown \<Rightarrow> Inl thrown
      | Inr None \<Rightarrow> Inr JUndefined
      | Inr (Some s) \<Rightarrow> Inr (JStr s))"

text \<open>Property reads and method calls on an argument.\<close>

fun get_protocol :: "jsval \<Rightarrow> thrown + jsval" where
  "get_protocol JUndefined = Inl (TypeError_thrown (ReadPropertyOfNullish ''protocol''))"
| "get_protocol JNull = Inl (TypeError_thrown (ReadPropertyOfNullish ''protocol''))"
| "get_protocol (JURL href protocol) = Inr (JStr protocol)"
| "get_protocol (JOther t string json includes protocol len) = protocol"
| "get_protocol v = Inr JUndefined"

text \<open>\<^verbatim>\<open>v.length === n\<close>: a primitive other than a string has no \<^verbatim>\<open>length\<close>, nor has a URL object.\<close>

fun length_is :: "jsval \<Rightarrow> nat \<Rightarrow> thrown + bool" where
  "length_is JUndefined n = Inl (TypeError_thrown (ReadPropertyOfNullish ''length''))"
| "length_is JNull n = Inl (TypeError_thrown (ReadPropertyOfNullish ''length''))"
| "length_is (JStr s) n = Inr (length s = n)"
| "length_is (JOther t string json includes protocol len) n =
     (case len of Inl thrown \<Rightarrow> Inl thrown | Inr l \<Rightarrow> Inr (l = Some n))"
| "length_is v n = Inr False"

text \<open>
  \<^verbatim>\<open>v.includes('.')\<close>, as a truth value: a primitive other than a string has no such method,
  nor has a URL object.
\<close>

fun includes_dot :: "jsval \<Rightarrow> thrown + bool" where
  "includes_dot JUndefined = Inl (TypeError_thrown (ReadPropertyOfNullish ''includes''))"
| "includes_dot JNull = Inl (TypeError_thrown (ReadPropertyOfNullish ''includes''))"
| "includes_dot (JStr s) = Inr (CHR ''.'' \<in> set s)"
| "includes_dot (JOther t string json includes protocol len) = includes"
| "includes_dot v = Inl (TypeError_thrown (NotAFunction ''includes''))"

section \<open>Message rules\<close>

subsection \<open>Functions with default parameters\<close>

text \<open>
  A message function is an arrow function with a parameter list. A parameter has the
  type the source declares for it and, when the source gives it an initialiser, a default
  value. Calling the function binds each parameter to the argument at its position, to
  \<^verbatim>\<open>undefined\<close> when the argument is missing, and to the default when the argument is
  missing or \<^verbatim>\<open>undefined\<close> and a default is declared. The \<^verbatim>\<open>length\<close> of a function is the
  number of parameters before the first one with a default.
\<close>

datatype jstype = TString | TBoolean | TURL | TUnknown | TStringOrUndefined

record param =
  ptype :: jstype
  pdefault :: "jsval option"

record js_function =
  params :: "param list"
  body :: "platform \<Rightarrow> jsval list \<Rightarrow> thrown + string"

definition required :: "jstype \<Rightarrow> param" where
  "required t = \<lparr>ptype = t, pdefault = None\<rparr>"

definition optional :: "jstype \<Rightarrow> jsval \<Rightarrow> param" where
  "optional t d = \<lparr>ptype = t, pdefault = Some d\<rparr>"

definition fn_length :: "js_function \<Rightarrow> nat" where
  "fn_length f = length (takeWhile (\<lambda>q. pdefault q = None) (params f))"

definition default_value :: "param \<Rightarrow> jsval" where
  "default_value q = (case pdefault q of None \<Rightarrow> JUndefined | Some d \<Rightarrow> d)"

fun bind_params :: "param list \<Rightarrow> jsval list \<Rightarrow> jsval list" where
  "bind_params [] args = []"
| "bind_params (q # qs) args =
     (let v = (case args of [] \<Rightarrow> JUndefined | a # _ \<Rightarrow> a)
      in if v = JUndefined then default_value q else v)
     # bind_params qs (tl args)"

text \<open>\<^verbatim>\<open>Reflect.apply(message, self, args)\<close>; no message function reads \<^verbatim>\<open>this\<close>.\<close>

definition apply_function :: "platform \<Rightarrow> js_function \<Rightarrow> jsval list \<Rightarrow> thrown + string" where
  "apply_function p f args = body f p (bind_params (params f) args)"

fun has_type :: "jsval \<Rightarrow> jstype \<Rightarrow> bool" where
  "has_type v TUnknown = True"
| "has_type (JStr s) TString = True"
| "has_type (JStr s) TStringOrUndefined = True"
| "has_type JUndefined TStringOrUndefined = True"
| "has_type (JBool b) TBoolean = True"
| "has_type (JURL href protocol) TURL = True"
| "has_type v t = False"

subsection \<open>The message functions of the ten codes\<close>

definition ERR_INVALID_MODULE_SPECIFIER_message ::
  "jsval \<Rightarrow> jsval \<Rightarrow> jsval \<Rightarrow> thrown + string" where
  \<open>ERR_INVALID_MODULE_SPECIFIER_message request reason base =
     template_literal
       [Inr ''Invalid module "'', to_string request, Inr ''" '', to_string reason,
        (if truthy base then template_literal [Inr '' imported from '', to_string base] else Inr [])]\<close>

definition ERR_INVALID_MODULE_SPECIFIER_function :: js_function where
  "ERR_INVALID_MODULE_SPECIFIER_function =
     \<lparr>params = [required TString, required TString, optional TStringOrUndefined JUndefined],
      body = (\<lambda>p bs. ERR_INVALID_MODULE_SPECIFIER_message (bs ! 0) (bs ! 1) (bs ! 2))\<rparr>"

definition ERR_INVALID_PACKAGE_CONFIG_message ::
  "jsval \<Rightarrow> jsval \<Rightarrow> jsval \<Rightarrow> thrown + string" where
  "ERR_INVALID_PACKAGE_CONFIG_message path base message =
     template_literal
       [Inr ''Invalid package config '', to_string path,
        (if truthy base then template_literal [Inr '' while importing '', to_string base] else Inr []),
        (if truthy message then template_literal [Inr ''. '', to_string message] else Inr [])]"

definition ERR_INVALID_PACKAGE_CONFIG_function :: js_function where
  "ERR_INVALID_PACKAGE_CONFIG_function =
     \<lparr>params = [required TString, required TString, required TString],
      body = (\<lambda>p bs. ERR_INVALID_PACKAGE_CONFIG_message (bs ! 0) (bs ! 1) (bs ! 2))\<rparr>"

text \<open>\<^verbatim>\<open>`${JSON.stringify(v)}`\<close>: the serialisation, or \<^verbatim>\<open>undefined\<close>, converted to a string.\<close>

definition stringified :: "jsval \<Rightarrow> thrown + string" where
  "stringified v = (case JSON_stringify v of Inl t \<Rightarrow> Inl t | Inr j \<Rightarrow> to_string j)"

definition ERR_INVALID_PACKAGE_TARGET_message ::
  "jsval \<Rightarrow> jsval \<Rightarrow> jsval \<Rightarrow> jsval \<Rightarrow> jsval \<Rightarrow> thrown + string" where
  \<open>ERR_INVALID_PACKAGE_TARGET_message pkgPath key target isImport base =
     (let relError =
            (case target of
               JStr t \<Rightarrow> \<not> truthy isImport \<and> length t > 0 \<and> take 2 t \<noteq> ''./''
             | _ \<Rightarrow> False)
      in if key = JStr ''.'' then
           (if isImport \<noteq> JBool False then Inl (AssertionError None)
            else template_literal
                   [Inr ''Invalid "exports" main target '', stringified target,
                    Inr '' defined '', Inr ''in the package config '', to_string pkgPath,
                    Inr ''package.json'',
                    (if truthy base then template_literal [Inr '' imported from '', to_string base]
                     else Inr []),
                    (if relError then Inr ''; targets must start with "./"'' else Inr [])])
         else template_literal
                [Inr ''Invalid "'', Inr (if truthy isImport then ''imports'' else ''exports''),
                 Inr ''" target '', stringified target, Inr '' defined for '', Inr apostrophe,
                 to_string key, Inr apostrophe, Inr '' in the package config '',
                 to_string pkgPath, Inr ''package.json'',
                 (if truthy base then template_literal [Inr '' imported from '', to_string base]
                  else Inr []),
                 (if relError then Inr ''; targets must start with "./"'' else Inr [])])\<close>

definition ERR_INVALID_PACKAGE_TARGET_function :: js_function where
  "ERR_INVALID_PACKAGE_TARGET_function =
     \<lparr>params = [required TString, required TString, required TUnknown,
                optional TBoolean (JBool False), optional TStringOrUndefined JUndefined],
      body = (\<lambda>p bs. ERR_INVALID_PACKAGE_TARGET_message (bs ! 0) (bs ! 1) (bs ! 2) (bs ! 3) (bs ! 4))\<rparr>"

definition ERR_MODULE_NOT_FOUND_message :: "jsval \<Rightarrow> jsval \<Rightarrow> jsval \<Rightarrow> thrown + string" where
  "ERR_MODULE_NOT_FOUND_message path base type =
     template_literal
       [Inr ''Cannot find '', to_string type, Inr '' '', Inr apostrophe, to_string path,
        Inr apostrophe, Inr '' imported from '', to_string base]"

definition ERR_MODULE_NOT_FOUND_function :: js_function where
  "ERR_MODULE_NOT_FOUND_function =
     \<lparr>params = [required TString, required TString, optional TString (JStr ''package'')],
      body = (\<lambda>p bs. ERR_MODULE_NOT_FOUND_message (bs ! 0) (bs ! 1) (bs ! 2))\<rparr>"

definition ERR_PACKAGE_IMPORT_NOT_DEFINED_message ::
  "jsval \<Rightarrow> jsval \<Rightarrow> jsval \<Rightarrow> thrown + string" where
  \<open>ERR_PACKAGE_IMPORT_NOT_DEFINED_message specifier packagePath base =
     template_literal
       [Inr ''Package import specifier "'', to_string specifier, Inr ''" is not defined'',
        (if truthy packagePath
         then template_literal [Inr '' in package '', to_string packagePath, Inr ''package.json'']
         else Inr []),
        Inr '' imported from '', to_string base]\<close>

definition ERR_PACKAGE_IMPORT_NOT_DEFINED_function :: js_function where
  "ERR_PACKAGE_IMPORT_NOT_DEFINED_function =
     \<lparr>params = [required TString, required TString, required TString],
      body = (\<lambda>p bs. ERR_PACKAGE_IMPORT_NOT_DEFINED_message (bs ! 0) (bs ! 1) (bs ! 2))\<rparr>"

definition ERR_PACKAGE_PATH_NOT_EXPORTED_message ::
  "jsval \<Rightarrow> jsval \<Rightarrow> jsval \<Rightarrow> thrown + string" where
  \<open>ERR_PACKAGE_PATH_NOT_EXPORTED_message pkgPath subpath base =
     (if subpath = JStr ''.'' then
        template_literal
          [Inr ''No "exports" main defined in '', to_string pkgPath, Inr ''package.json'',
           (if truthy base then template_literal [Inr '' imported from '', to_string base] else Inr [])]
      else
        template_literal
          [Inr ''Package subpath '', Inr apostrophe, to_string subpath, Inr apostrophe,
           Inr '' is not defined by "exports" in '', to_string pkgPath, Inr ''package.json'',
           (if truthy base then template_literal [Inr '' imported from '', to_string base]
            else Inr [])])\<close>

definition ERR_PACKAGE_PATH_NOT_EXPORTED_function :: js_function where
  "ERR_PACKAGE_PATH_NOT_EXPORTED_function =
     \<lparr>params = [required TString, required TString, optional TUnknown JUndefined],
      body = (\<lambda>p bs. ERR_PACKAGE_PATH_NOT_EXPORTED_message (bs ! 0) (bs ! 1) (bs ! 2))\<rparr>"

definition ERR_INVALID_ARG_VALUE_message ::
  "platform \<Rightarrow> jsval \<Rightarrow> jsval \<Rightarrow> jsval \<Rightarrow> thrown + string" where
  "ERR_INVALID_ARG_VALUE_message p name value reason =
     (case inspect p value of
        Inl t \<Rightarrow> Inl t
      | Inr inspected \<Rightarrow>
          (let inspected = (if length inspected > 128 then take 128 inspected @ ''...''
                            else inspected)
           in case includes_dot name of
                Inl t \<Rightarrow> Inl t
              | Inr dotted \<Rightarrow>
                  template_literal
                    [Inr ''The '', Inr (if dotted then ''property'' else ''argument''),
                     Inr '' '', Inr apostrophe, to_string name, Inr apostrophe, Inr '' '',
                     to_string reason, Inr ''. Received '', Inr inspected]))"

definition ERR_INVALID_ARG_VALUE_function :: js_function where
  "ERR_INVALID_ARG_VALUE_function =
     \<lparr>params = [required TString, required TUnknown, optional TString (JStr ''is invalid'')],
      body = (\<lambda>p bs. ERR_INVALID_ARG_VALUE_message p (bs ! 0) (bs ! 1) (bs ! 2))\<rparr>"

definition ERR_UNSUPPORTED_ESM_URL_SCHEME_message :: "platform \<Rightarrow> jsval \<Rightarrow> thrown + string" where
  "ERR_UNSUPPORTED_ESM_URL_SCHEME_message p url =
     (let message = ''Only file and data URLs are supported by the default ESM loader'';
          on_windows =
            (if isWindows p then
               (case get_protocol url of
                  Inl t \<Rightarrow> Inl t
                | Inr protocol \<Rightarrow> length_is protocol 2)
             else Inr False)
      in case on_windows of
           Inl t \<Rightarrow> Inl t
         | Inr absolute_path \<Rightarrow>
             (let message =
                    (if absolute_path
                     then message @ ''. On Windows, absolute paths must be valid file:// URLs''
                     else message)
              in template_literal
                   [Inr message, Inr ''. Received protocol '', Inr apostrophe,
                    (case get_protocol url of
                       Inl t \<Rightarrow> Inl t
                     | Inr protocol \<Rightarrow> to_string protocol),
                    Inr apostrophe]))"

definition ERR_UNSUPPORTED_ESM_URL_SCHEME_function :: js_function where
  "ERR_UNSUPPORTED_ESM_URL_SCHEME_function =
     \<lparr>params = [required TURL],
      body = (\<lambda>p bs. ERR_UNSUPPORTED_ESM_URL_SCHEME_message p (bs ! 0))\<rparr>"

section \<open>Error objects and the stack-trace limit\<close>

text \<open>
  An error object, as far as the module touches it: the constructor it was built from
  (its prototype supplies the inherited \<^verbatim>\<open>name\<close>), whether it is frozen, the own properties
  the module defines (\<^verbatim>\<open>name\<close>, \<^verbatim>\<open>message\<close>, \<^verbatim>\<open>code\<close>, each with its value and whether it is
  enumerable; every property the module defines is writable and configurable), the key
  captured by the \<^verbatim>\<open>toString\<close> closure once that is defined, and the stack trace.
  The frames of a trace are not modelled: a trace records the frame limit in force when it
  was captured and, once \<^verbatim>\<open>error.stack\<close> has been read, its formatted header line. When
  no trace was captured, \<^verbatim>\<open>error.stack\<close> is \<^verbatim>\<open>undefined\<close>. No hook on the formatting of a
  trace (\<^verbatim>\<open>Error.prepareStackTrace\<close>) is taken to be installed: reading \<^verbatim>\<open>error.stack\<close> runs
  no code of the user.
\<close>

record base_ctor =
  ctor_name :: string
  prototype_name :: string

definition Error :: base_ctor where
  "Error = \<lparr>ctor_name = ''Error'', prototype_name = ''Error''\<rparr>"

definition TypeError :: base_ctor where
  "TypeError = \<lparr>ctor_name = ''TypeError'', prototype_name = ''TypeError''\<rparr>"

record property =
  pvalue :: string
  enumerable :: bool

text \<open>
  A value of the limit: a number, \<^verbatim>\<open>Infinity\<close>, or \<^verbatim>\<open>undefined\<close>, which stands here for every
  value that is not a number.
\<close>

datatype limit_value = LimitUndefined | LimitNumber int | LimitInfinity

datatype stack_trace =
    NoTrace
  | Captured limit_value
  | Formatted string limit_value

record js_error =
  base :: base_ctor
  frozen :: bool
  own_name :: "property option"
  own_message :: "property option"
  own_toString :: "string option"
  own_code :: "property option"
  stack :: stack_trace

text \<open>
  The global state: the own property \<^verbatim>\<open>stackTraceLimit\<close> of \<^verbatim>\<open>Error\<close> (absent, a data
  property with its value and its \<^verbatim>\<open>writable\<close> attribute, or an accessor property),
  whether \<^verbatim>\<open>Error\<close> is extensible, and the module variable \<^verbatim>\<open>userStackTraceLimit\<close>.
  An accessor property is modelled with a slot of its own: its getter, when it has one,
  returns the slot, and its setter, when it has one, stores into it.
\<close>

datatype limit_property =
    NoProperty
  | DataProperty limit_value bool
  | AccessorProperty bool bool limit_value  \<comment> \<open>has a getter, has a setter, the slot\<close>

record env =
  Error_extensible :: bool
  stackTraceLimit :: limit_property
  userStackTraceLimit :: limit_value

definition isErrorStackTraceLimitWritable :: "env \<Rightarrow> bool" where
  "isErrorStackTraceLimitWritable e =
     (case stackTraceLimit e of
        NoProperty \<Rightarrow> Error_extensible e
      | DataProperty v writable \<Rightarrow> writable
      | AccessorProperty getter setter slot \<Rightarrow> setter)"

text \<open>Reading \<^verbatim>\<open>Error.stackTraceLimit\<close>.\<close>

definition read_limit :: "env \<Rightarrow> limit_value" where
  "read_limit e =
     (case stackTraceLimit e of
        NoProperty \<Rightarrow> LimitUndefined
      | DataProperty v writable \<Rightarrow> v
      | AccessorProperty getter setter slot \<Rightarrow> (if getter then slot else LimitUndefined))"

text \<open>
  The limit the engine captures a trace under. It reads \<^verbatim>\<open>stackTraceLimit\<close> as a data
  property of \<^verbatim>\<open>Error\<close>, without running a getter, and captures a trace only when the value
  is a number: under an accessor property, a missing property or a value that is not a
  number it captures none.
\<close>

definition trace_limit :: "env \<Rightarrow> limit_value option" where
  "trace_limit e =
     (case stackTraceLimit e of
        NoProperty \<Rightarrow> None
      | DataProperty v writable \<Rightarrow> (if v = LimitUndefined then None else Some v)
      | AccessorProperty getter setter slot \<Rightarrow> None)"

definition capture :: "env \<Rightarrow> stack_trace" where
  "capture e = (case trace_limit e of None \<Rightarrow> NoTrace | Some l \<Rightarrow> Captured l)"

text \<open>The assignment \<^verbatim>\<open>Error.stackTraceLimit = v\<close>, in strict mode (the file is a module).\<close>

definition assign_limit :: "env \<Rightarrow> limit_value \<Rightarrow> thrown + env" where
  "assign_limit e v =
     (case stackTraceLimit e of
        NoProperty \<Rightarrow>
          (if Error_extensible e then Inr (e\<lparr>stackTraceLimit := DataProperty v True\<rparr>)
           else Inl (TypeError_thrown (ObjectNotExtensible ''stackTraceLimit'')))
      | DataProperty old writable \<Rightarrow>
          (if writable then Inr (e\<lparr>stackTraceLimit := DataProperty v True\<rparr>)
           else Inl (TypeError_thrown (AssignToReadOnly ''stackTraceLimit'')))
      | AccessorProperty getter setter slot \<Rightarrow>
          (if setter then Inr (e\<lparr>stackTraceLimit := AccessorProperty getter setter v\<rparr>)
           else Inl (TypeError_thrown (AssignToReadOnly ''stackTraceLimit''))))"

text \<open>
  \<^verbatim>\<open>new Base()\<close>: a fresh, extensible object; its trace is captured under the limit in force,
  when there is one.
\<close>

definition new_error :: "env \<Rightarrow> base_ctor \<Rightarrow> js_error" where
  "new_error e Base =
     \<lparr>base = Base, frozen = False, own_name = None, own_message = None,
      own_toString = None, own_code = None, stack = capture e\<rparr>"

text \<open>\<^verbatim>\<open>Error.captureStackTrace(error)\<close> defines \<^verbatim>\<open>stack\<close> anew; on a frozen object it throws.\<close>

definition captureStackTrace :: "env \<Rightarrow> js_error \<Rightarrow> thrown + js_error" where
  "captureStackTrace e error =
     (if frozen error then Inl (TypeError_thrown (ObjectNotExtensible ''stack''))
      else Inr (error\<lparr>stack := capture e\<rparr>))"

definition get_name :: "js_error \<Rightarrow> string" where
  "get_name error =
     (case own_name error of None \<Rightarrow> prototype_name (base error) | Some pr \<Rightarrow> pvalue pr)"

definition get_message :: "js_error \<Rightarrow> string" where
  "get_message error = (case own_message error of None \<Rightarrow> [] | Some pr \<Rightarrow> pvalue pr)"

definition get_code :: "js_error \<Rightarrow> string option" where
  "get_code error = map_option pvalue (own_code error)"

text \<open>
  An assignment \<^verbatim>\<open>error.k = v\<close> keeps the attributes of an own property and creates a missing
  one enumerable; \<^verbatim>\<open>Object.defineProperty\<close> with \<^verbatim>\<open>enumerable: false\<close> makes it non-enumerable.
  Both throw on a frozen object.
\<close>

definition assigned :: "property option \<Rightarrow> string \<Rightarrow> property option" where
  "assigned old v =
     (case old of
        None \<Rightarrow> Some \<lparr>pvalue = v, enumerable = True\<rparr>
      | Some pr \<Rightarrow> Some (pr\<lparr>pvalue := v\<rparr>))"

definition assign_name :: "js_error \<Rightarrow> string \<Rightarrow> thrown + js_error" where
  "assign_name error v =
     (if frozen error then Inl (TypeError_thrown (AssignToReadOnly ''name''))
      else Inr (error\<lparr>own_name := assigned (own_name error) v\<rparr>))"

definition assign_code :: "js_error \<Rightarrow> string \<Rightarrow> thrown + js_error" where
  "assign_code error v =
     (if frozen error then Inl (TypeError_thrown (AssignToReadOnly ''code''))
      else Inr (error\<lparr>own_code := assigned (own_code error) v\<rparr>))"

definition assign_message :: "js_error \<Rightarrow> string \<Rightarrow> thrown + js_error" where
  "assign_message error v =
     (if frozen error then Inl (TypeError_thrown (AssignToReadOnly ''message''))
      else Inr (error\<lparr>own_message := assigned (own_message error) v\<rparr>))"

definition define_name :: "js_error \<Rightarrow> string \<Rightarrow> thrown + js_error" where
  "define_name error v =
     (if frozen error then Inl (TypeError_thrown (ObjectNotExtensible ''name''))
      else Inr (error\<lparr>own_name := Some \<lparr>pvalue = v, enumerable = False\<rparr>\<rparr>))"

definition define_message :: "js_error \<Rightarrow> string \<Rightarrow> thrown + js_error" where
  "define_message error v =
     (if frozen error then Inl (TypeError_thrown (ObjectNotExtensible ''message''))
      else Inr (error\<lparr>own_message := Some \<lparr>pvalue = v, enumerable = False\<rparr>\<rparr>))"

definition define_toString :: "js_error \<Rightarrow> string \<Rightarrow> thrown + js_error" where
  "define_toString error key =
     (if frozen error then Inl (TypeError_thrown (ObjectNotExtensible ''toString''))
      else Inr (error\<lparr>own_toString := Some key\<rparr>))"

text \<open>
  The header line of a trace is built from \<^verbatim>\<open>name\<close> and \<^verbatim>\<open>message\<close> as they are when
  \<^verbatim>\<open>error.stack\<close> is first read, the way \<^verbatim>\<open>Error.prototype.toString\<close> joins them.
\<close>

definition header :: "js_error \<Rightarrow> string" where
  "header error =
     (let n = get_name error; m = get_message error
      in if n = [] then m else if m = [] then n else n @ '': '' @ m)"

definition read_stack :: "js_error \<Rightarrow> js_error" where
  "read_stack error =
     (case stack error of
        NoTrace \<Rightarrow> error
      | Captured l \<Rightarrow> error\<lparr>stack := Formatted (header error) l\<rparr>
      | Formatted h l \<Rightarrow> error)"

text \<open>
  Calling \<^verbatim>\<open>error.toString()\<close>: the closure \<^verbatim>\<open>NodeError\<close> defines when there is one,
  \<^verbatim>\<open>Error.prototype.toString\<close> otherwise.
\<close>

definition toString :: "js_error \<Rightarrow> string" where
  "toString error =
     (case own_toString error of
        Some key \<Rightarrow> get_name error @ '' ['' @ key @ '']: '' @ get_message error
      | None \<Rightarrow> header error)"

section \<open>Trace capture\<close>

text \<open>
  Both routines are wrapped in \<^verbatim>\<open>hideStackFrames\<close>, which renames the function it is given
  and returns it: that changes which frames a trace shows, and nothing modelled here.
  The statements run in sequence, without \<^verbatim>\<open>try\<close>: a statement that throws ends the routine
  with the state as it is at that point.
\<close>

definition captureLargerStackTrace :: "env \<Rightarrow> js_error \<Rightarrow> (thrown + js_error) \<times> env" where
  "captureLargerStackTrace e error =
     (let stackTraceLimitIsWritable = isErrorStackTraceLimitWritable e;
          raised =
            (if stackTraceLimitIsWritable
             then assign_limit (e\<lparr>userStackTraceLimit := read_limit e\<rparr>) LimitInfinity
             else Inr e)
      in case raised of
           Inl t \<Rightarrow> (Inl t, e\<lparr>userStackTraceLimit := read_limit e\<rparr>)
         | Inr e \<Rightarrow>
             (case captureStackTrace e error of
                Inl t \<Rightarrow> (Inl t, e)
              | Inr error \<Rightarrow>
                  (if stackTraceLimitIsWritable then
                     (case assign_limit e (userStackTraceLimit e) of
                        Inl t \<Rightarrow> (Inl t, e)
                      | Inr e \<Rightarrow> (Inr error, e))
                   else (Inr error, e))))"

definition addCodeToName ::
  "env \<Rightarrow> js_error \<Rightarrow> string \<Rightarrow> string \<Rightarrow> (thrown + js_error) \<times> env" where
  "addCodeToName e error name code =
     (case captureLargerStackTrace e error of
        (Inl t, e) \<Rightarrow> (Inl t, e)
      | (Inr error, e) \<Rightarrow>
          (case assign_name error (name @ '' ['' @ code @ '']'') of
             Inl t \<Rightarrow> (Inl t, e)
           | Inr error \<Rightarrow>
               (let error = read_stack error
                in if name = ''SystemError'' then
                     (case define_name error name of
                        Inl t \<Rightarrow> (Inl t, e)
                      | Inr error \<Rightarrow> (Inr error, e))
                   else
                     (case assign_name error [] of
                        Inl t \<Rightarrow> (Inl t, e)
                      | Inr error \<Rightarrow> (Inr error, e)))))"

section \<open>The registry and message resolution\<close>

text \<open>A registered message is a template string or a message function.\<close>

datatype message = MessageString string | MessageFunction js_function

text \<open>The number of matches of \<^verbatim>\<open>/%[dfijoOs]/g\<close> in a template.\<close>

fun count_placeholders :: "string \<Rightarrow> nat" where
  "count_placeholders (x # y # rest) =
     (if x = CHR ''%'' \<and> y \<in> set ''dfijoOs'' then Suc (count_placeholders rest)
      else count_placeholders (y # rest))"
| "count_placeholders rest = 0"

text \<open>
  \<^verbatim>\<open>util.format(template, ...args)\<close> with at least one argument: the template is scanned
  left to right; \<^verbatim>\<open>%%\<close> gives a percent sign; while arguments remain, a placeholder takes the
  next one (\<^verbatim>\<open>%s\<close> of a string is the string itself, every other conversion is the
  platform's) and \<^verbatim>\<open>%c\<close> drops the next one; arguments left over at the end are appended,
  each after a space, a string as it is and any other value inspected. The conversions
  happen in that order, and the first one that throws ends the call.
\<close>

definition format_placeholder :: "platform \<Rightarrow> char \<Rightarrow> jsval \<Rightarrow> thrown + string" where
  "format_placeholder p c v =
     (case v of
        JStr s \<Rightarrow> (if c = CHR ''s'' then Inr s else format_value p c v)
      | _ \<Rightarrow> format_value p c v)"

definition format_rest :: "platform \<Rightarrow> jsval list \<Rightarrow> thrown + string" where
  "format_rest p args =
     template_literal
       (map (\<lambda>v. template_literal [Inr '' '', (case v of JStr s \<Rightarrow> Inr s | _ \<Rightarrow> inspect p v)]) args)"

fun format :: "platform \<Rightarrow> string \<Rightarrow> jsval list \<Rightarrow> thrown + string" where
  "format p (x # c # cs) args =
     (if x = CHR ''%'' then
        (if c = CHR ''%'' then template_literal [Inr ''%'', format p cs args]
         else case args of
                [] \<Rightarrow> template_literal [Inr [x, c], format p cs []]
              | a # rest \<Rightarrow>
                  (if c \<in> set ''sjdOoif''
                   then template_literal [format_placeholder p c a, format p cs rest]
                   else if c = CHR ''c'' then format p cs rest
                   else template_literal [Inr [x, c], format p cs args]))
      else template_literal [Inr [x], format p (c # cs) args])"
| "format p cs args = template_literal [Inr cs, format_rest p args]"

text \<open>The diagnostic of the argument-count assertions.\<close>

definition arity_diagnostic :: "string \<Rightarrow> nat \<Rightarrow> nat \<Rightarrow> string" where
  "arity_diagnostic key supplied expected =
     ''Code: '' @ key @ ''; The provided arguments length ('' @ to_decimal supplied @
     '') does not match the required ones ('' @ to_decimal expected @ '').''"

text \<open>
  \<^verbatim>\<open>messages.get(key)\<close> of a key that was never set is \<^verbatim>\<open>undefined\<close>: it is not a function,
  and reading its \<^verbatim>\<open>match\<close> property throws.
\<close>

definition getMessage ::
  "platform \<Rightarrow> (string \<rightharpoonup> message) \<Rightarrow> string \<Rightarrow> jsval list \<Rightarrow> js_error \<Rightarrow> thrown + string" where
  "getMessage p messages key args self =
     (case messages key of
        Some (MessageFunction message) \<Rightarrow>
          (if fn_length message \<le> length args then apply_function p message args
           else Inl (AssertionError
                  (Some (arity_diagnostic key (length args) (fn_length message)))))
      | Some (MessageString message) \<Rightarrow>
          (let expectedLength = count_placeholders message
           in if expectedLength = length args then
                (if length args = 0 then Inr message else format p message args)
              else Inl (AssertionError
                     (Some (arity_diagnostic key (length args) expectedLength))))
      | None \<Rightarrow> Inl (TypeError_thrown (ReadPropertyOfNullish ''match'')))"

section \<open>The error factory\<close>

definition NodeError ::
  "platform \<Rightarrow> (string \<rightharpoonup> message) \<Rightarrow> base_ctor \<Rightarrow> string \<Rightarrow> jsval list \<Rightarrow> env
     \<Rightarrow> (thrown + js_error) \<times> env" where
  "NodeError p messages Base key args e =
     (let limit = read_limit e
      in case (if isErrorStackTraceLimitWritable e then assign_limit e (LimitNumber 0)
               else Inr e) of
           Inl t \<Rightarrow> (Inl t, e)
         | Inr e \<Rightarrow>
         (let error = new_error e Base
          in case (if isErrorStackTraceLimitWritable e then assign_limit e limit
                   else Inr e) of
               Inl t \<Rightarrow> (Inl t, e)
             | Inr e \<Rightarrow>
             (case getMessage p messages key args error of
                Inl t \<Rightarrow> (Inl t, e)
              | Inr message \<Rightarrow>
              (case define_message error message of
                 Inl t \<Rightarrow> (Inl t, e)
               | Inr error \<Rightarrow>
               (case define_toString error key of
                  Inl t \<Rightarrow> (Inl t, e)
                | Inr error \<Rightarrow>
                (case addCodeToName e error (ctor_name Base) key of
                   (Inl t, e) \<Rightarrow> (Inl t, e)
                 | (Inr error, e) \<Rightarrow>
                 (case assign_code error key of
                    Inl t \<Rightarrow> (Inl t, e)
                  | Inr error \<Rightarrow> (Inr error, e))))))))"

text \<open>
  \<^verbatim>\<open>makeNodeErrorWithCode(Base, key)\<close> returns the closure \<^verbatim>\<open>NodeError\<close> over \<^verbatim>\<open>Base\<close> and
  \<^verbatim>\<open>key\<close>; \<^verbatim>\<open>createError\<close> stores the message under the code and returns that closure.
\<close>

record constructor =
  ctor_base :: base_ctor
  ctor_key :: string

definition makeNodeErrorWithCode :: "base_ctor \<Rightarrow> string \<Rightarrow> constructor" where
  "makeNodeErrorWithCode Base key = \<lparr>ctor_base = Base, ctor_key = key\<rparr>"

definition createError ::
  "string \<Rightarrow> message \<Rightarrow> base_ctor \<Rightarrow> (string \<rightharpoonup> message)
     \<Rightarrow> (string \<rightharpoonup> message) \<times> constructor" where
  "createError sym' val def messages =
     (messages(sym' \<mapsto> val), makeNodeErrorWithCode def sym')"

text \<open>
  The module state after its top-level statements have run: the map \<^verbatim>\<open>messages\<close> and the
  exported object \<^verbatim>\<open>codes\<close>. Every statement is \<^verbatim>\<open>codes.SYM = createError('SYM', ...)\<close>.
\<close>

record module =
  messages :: "string \<rightharpoonup> message"
  codes :: "string \<rightharpoonup> constructor"

definition define_code :: "string \<Rightarrow> message \<Rightarrow> base_ctor \<Rightarrow> module \<Rightarrow> module" where
  "define_code sym' val def m =
     (case createError sym' val def (messages m) of
        (messages', ctor) \<Rightarrow> \<lparr>messages = messages', codes = (codes m)(sym' \<mapsto> ctor)\<rparr>)"

definition registrations :: "(string \<times> message \<times> base_ctor) list" where
  \<open>registrations =
     [(''ERR_INVALID_MODULE_SPECIFIER'',
         MessageFunction ERR_INVALID_MODULE_SPECIFIER_function, TypeError),
      (''ERR_INVALID_PACKAGE_CONFIG'',
         MessageFunction ERR_INVALID_PACKAGE_CONFIG_function, Error),
      (''ERR_INVALID_PACKAGE_TARGET'',
         MessageFunction ERR_INVALID_PACKAGE_TARGET_function, Error),
      (''ERR_MODULE_NOT_FOUND'',
         MessageFunction ERR_MODULE_NOT_FOUND_function, Error),
      (''ERR_PACKAGE_IMPORT_NOT_DEFINED'',
         MessageFunction ERR_PACKAGE_IMPORT_NOT_DEFINED_function, TypeError),
      (''ERR_PACKAGE_PATH_NOT_EXPORTED'',
         MessageFunction ERR_PACKAGE_PATH_NOT_EXPORTED_function, Error),
      (''ERR_UNSUPPORTED_DIR_IMPORT'',
         MessageString (''Directory import '' @ apostrophe @ ''%s'' @ apostrophe @
                        '' is not supported '' @
                        ''resolving ES modules imported from %s''), Error),
      (''ERR_UNKNOWN_FILE_EXTENSION'',
         MessageString ''Unknown file extension "%s" for %s'', TypeError),
      (''ERR_INVALID_ARG_VALUE'',
         MessageFunction ERR_INVALID_ARG_VALUE_function, TypeError),
      (''ERR_UNSUPPORTED_ESM_URL_SCHEME'',
         MessageFunction ERR_UNSUPPORTED_ESM_URL_SCHEME_function, Error)]\<close>

definition loaded :: module where
  "loaded =
     foldl (\<lambda>m (sym', val, def). define_code sym' val def m)
       \<lparr>messages = Map.empty, codes = Map.empty\<rparr> registrations"

text \<open>Calling \<^verbatim>\<open>codes[code](...args)\<close>; \<open>None\<close> when \<^verbatim>\<open>codes\<close> has no such constructor.\<close>

definition construct ::
  "platform \<Rightarrow> string \<Rightarrow> jsval list \<Rightarrow> env \<Rightarrow> ((thrown + js_error) \<times> env) option" where
  "construct p code args e =
     (case codes loaded code of
        None \<Rightarrow> None
      | Some ctor \<Rightarrow> Some (NodeError p (messages loaded) (ctor_base ctor) (ctor_key ctor) args e))"

section \<open>Notions of the specification\<close>

text \<open>
  The count a rule requires: the \<^verbatim>\<open>length\<close> of a message function, the number of
  placeholders of a template.
\<close>

fun required_count :: "message \<Rightarrow> nat" where
  "required_count (MessageFunction f) = fn_length f"
| "required_count (MessageString template) = count_placeholders template"

text \<open>
  The arguments of a call have the types the source declares for the parameters they are
  bound to. The arguments of a template are \<^verbatim>\<open>any\<close>.
\<close>

fun have_declared_types :: "message \<Rightarrow> jsval list \<Rightarrow> bool" where
  "have_declared_types (MessageFunction f) args =
     list_all2 has_type args (map ptype (take (length args) (params f)))"
| "have_declared_types (MessageString template) args = True"

text \<open>A conversion returns: it does not throw.\<close>

fun returns :: "thrown + 'a \<Rightarrow> bool" where
  "returns (Inl t) = False"
| "returns (Inr x) = True"

text \<open>\<^verbatim>\<open>JSON.stringify\<close> returns on the value.\<close>

definition serializable :: "jsval \<Rightarrow> bool" where
  "serializable v = (case JSON_stringify v of Inl t \<Rightarrow> False | Inr j \<Rightarrow> True)"

text \<open>
  The conversions the rule of a code applies to the arguments of a call with exactly the
  required arguments all return:
  \<^item> for the six message functions that only interpolate, the string conversion of each
    argument they interpolate (a \<^verbatim>\<open>base\<close>, \<^verbatim>\<open>message\<close> or \<^verbatim>\<open>packagePath\<close> only when it is truthy),
    and for \<^verbatim>\<open>ERR_INVALID_PACKAGE_TARGET\<close> also \<^verbatim>\<open>JSON.stringify\<close> of the target;
  \<^item> for the two templates, the \<^verbatim>\<open>%s\<close> conversion of \<^verbatim>\<open>util.format\<close> for each argument;
  \<^item> for \<^verbatim>\<open>ERR_INVALID_ARG_VALUE\<close>, \<^verbatim>\<open>util.inspect\<close> of the value, \<^verbatim>\<open>name.includes('.')\<close> and the
    string conversion of the name;
  \<^item> for \<^verbatim>\<open>ERR_UNSUPPORTED_ESM_URL_SCHEME\<close>, reading \<^verbatim>\<open>url.protocol\<close>, on Windows reading its
    \<^verbatim>\<open>length\<close>, and its string conversion.
\<close>

definition stringifies :: "jsval \<Rightarrow> bool" where
  "stringifies v = returns (to_string v)"

definition conversions_return :: "platform \<Rightarrow> string \<Rightarrow> jsval list \<Rightarrow> bool" where
  "conversions_return p key args =
     (if key = ''ERR_INVALID_MODULE_SPECIFIER'' then
        stringifies (args ! 0) \<and> stringifies (args ! 1)
      else if key = ''ERR_INVALID_PACKAGE_CONFIG'' then
        stringifies (args ! 0) \<and> (truthy (args ! 1) \<longrightarrow> stringifies (args ! 1))
        \<and> (truthy (args ! 2) \<longrightarrow> stringifies (args ! 2))
      else if key = ''ERR_INVALID_PACKAGE_TARGET'' then
        stringifies (args ! 0) \<and> stringifies (args ! 1) \<and> serializable (args ! 2)
      else if key = ''ERR_MODULE_NOT_FOUND'' then
        stringifies (args ! 0) \<and> stringifies (args ! 1)
      else if key = ''ERR_PACKAGE_IMPORT_NOT_DEFINED'' then
        stringifies (args ! 0) \<and> (truthy (args ! 1) \<longrightarrow> stringifies (args ! 1))
        \<and> stringifies (args ! 2)
      else if key = ''ERR_PACKAGE_PATH_NOT_EXPORTED'' then
        stringifies (args ! 0) \<and> stringifies (args ! 1)
      else if key = ''ERR_UNSUPPORTED_DIR_IMPORT'' \<or> key = ''ERR_UNKNOWN_FILE_EXTENSION'' then
        returns (format_placeholder p CHR ''s'' (args ! 0))
        \<and> returns (format_placeholder p CHR ''s'' (args ! 1))
      else if key = ''ERR_INVALID_ARG_VALUE'' then
        returns (inspect p (args ! 1)) \<and> returns (includes_dot (args ! 0))
        \<and> stringifies (args ! 0)
      else if key = ''ERR_UNSUPPORTED_ESM_URL_SCHEME'' then
        (case get_protocol (args ! 0) of
           Inl t \<Rightarrow> False
         | Inr protocol \<Rightarrow>
             (isWindows p \<longrightarrow> returns (length_is protocol 2)) \<and> stringifies protocol)
      else False)"

section \<open>Inputs for the examples\<close>

text \<open>
  A platform that is not Windows. Its \<^verbatim>\<open>inspect\<close> stands in for \<^verbatim>\<open>util.inspect\<close> in the
  examples only: it puts a string between apostrophes and renders any other value as
  \<^verbatim>\<open>ToString\<close> does.
\<close>

fun example_inspect :: "jsval \<Rightarrow> thrown + string" where
  "example_inspect (JStr s) = Inr (apostrophe @ s @ apostrophe)"
| "example_inspect v = to_string v"

fun example_format_value :: "char \<Rightarrow> jsval \<Rightarrow> thrown + string" where
  "example_format_value c v = to_string v"

definition example_platform :: platform where
  "example_platform =
     \<lparr>isWindows = False, inspect = example_inspect, format_value = example_format_value\<rparr>"

text \<open>The state of a fresh process: \<^verbatim>\<open>Error.stackTraceLimit\<close> is a writable data property, 10.\<close>

definition example_env :: env where
  "example_env =
     \<lparr>Error_extensible = True, stackTraceLimit = DataProperty (LimitNumber 10) True,
      userStackTraceLimit = LimitUndefined\<rparr>"

text \<open>The same state after \<^verbatim>\<open>Object.freeze(Error)\<close>.\<close>

definition frozen_env :: env where
  "frozen_env =
     \<lparr>Error_extensible = False, stackTraceLimit = DataProperty (LimitNumber 10) False,
      userStackTraceLimit = LimitUndefined\<rparr>"

text \<open>
  An object whose \<^verbatim>\<open>toString\<close> throws, and which has none of the properties the rules read:
  it is truthy, \<^verbatim>\<open>JSON.stringify\<close> gives \<^verbatim>\<open>{}\<close>, \<^verbatim>\<open>includes\<close> is not a function, \<^verbatim>\<open>protocol\<close>
  and \<^verbatim>\<open>length\<close> are \<^verbatim>\<open>undefined\<close>.
\<close>

definition throwing_toString :: jsval where
  "throwing_toString =
     JOther True (Inl (Thrown_by_argument ''toString'')) (Inr (Some ''{}''))
       (Inl (TypeError_thrown (NotAFunction ''includes''))) (Inr JUndefined) (Inr None)"

section \<open>Facts about the model\<close>

lemma messages_loaded:
  \<open>messages loaded =
     [''ERR_INVALID_MODULE_SPECIFIER'' \<mapsto> MessageFunction ERR_INVALID_MODULE_SPECIFIER_function,
      ''ERR_INVALID_PACKAGE_CONFIG'' \<mapsto> MessageFunction ERR_INVALID_PACKAGE_CONFIG_function,
      ''ERR_INVALID_PACKAGE_TARGET'' \<mapsto> MessageFunction ERR_INVALID_PACKAGE_TARGET_function,
      ''ERR_MODULE_NOT_FOUND'' \<mapsto> MessageFunction ERR_MODULE_NOT_FOUND_function,
      ''ERR_PACKAGE_IMPORT_NOT_DEFINED'' \<mapsto> MessageFunction ERR_PACKAGE_IMPORT_NOT_DEFINED_function,
      ''ERR_PACKAGE_PATH_NOT_EXPORTED'' \<mapsto> MessageFunction ERR_PACKAGE_PATH_NOT_EXPORTED_function,
      ''ERR_UNSUPPORTED_DIR_IMPORT'' \<mapsto>
         MessageString (''Directory import '' @ apostrophe @ ''%s'' @ apostrophe @
                        '' is not supported resolving ES modules imported from %s''),
      ''ERR_UNKNOWN_FILE_EXTENSION'' \<mapsto> MessageString ''Unknown file extension "%s" for %s'',
      ''ERR_INVALID_ARG_VALUE'' \<mapsto> MessageFunction ERR_INVALID_ARG_VALUE_function,
      ''ERR_UNSUPPORTED_ESM_URL_SCHEME'' \<mapsto> MessageFunction ERR_UNSUPPORTED_ESM_URL_SCHEME_function]\<close>
  by (simp add: loaded_def registrations_def define_code_def createError_def)

lemma codes_loaded:
  "codes loaded =
     [''ERR_INVALID_MODULE_SPECIFIER'' \<mapsto> makeNodeErrorWithCode TypeError ''ERR_INVALID_MODULE_SPECIFIER'',
      ''ERR_INVALID_PACKAGE_CONFIG'' \<mapsto> makeNodeErrorWithCode Error ''ERR_INVALID_PACKAGE_CONFIG'',
      ''ERR_INVALID_PACKAGE_TARGET'' \<mapsto> makeNodeErrorWithCode Error ''ERR_INVALID_PACKAGE_TARGET'',
      ''ERR_MODULE_NOT_FOUND'' \<mapsto> makeNodeErrorWithCode Error ''ERR_MODULE_NOT_FOUND'',
      ''ERR_PACKAGE_IMPORT_NOT_DEFINED'' \<mapsto> makeNodeErrorWithCode TypeError ''ERR_PACKAGE_IMPORT_NOT_DEFINED'',
      ''ERR_PACKAGE_PATH_NOT_EXPORTED'' \<mapsto> makeNodeErrorWithCode Error ''ERR_PACKAGE_PATH_NOT_EXPORTED'',
      ''ERR_UNSUPPORTED_DIR_IMPORT'' \<mapsto> makeNodeErrorWithCode Error ''ERR_UNSUPPORTED_DIR_IMPORT'',
      ''ERR_UNKNOWN_FILE_EXTENSION'' \<mapsto> makeNodeErrorWithCode TypeError ''ERR_UNKNOWN_FILE_EXTENSION'',
      ''ERR_INVALID_ARG_VALUE'' \<mapsto> makeNodeErrorWithCode TypeError ''ERR_INVALID_ARG_VALUE'',
      ''ERR_UNSUPPORTED_ESM_URL_SCHEME'' \<mapsto> makeNodeErrorWithCode Error ''ERR_UNSUPPORTED_ESM_URL_SCHEME'']"
  by (simp add: loaded_def registrations_def define_code_def createError_def)

lemma getMessage_self: "getMessage p ms key args self = getMessage p ms key args self'"
  by (simp add: getMessage_def)

lemma NodeError_returns:
  assumes "getMessage p ms key args self = Inr m"
  shows "\<exists>error e'. NodeError p ms Base key args e = (Inr error, e')
           \<and> get_code error = Some key \<and> get_message error = m
           \<and> own_toString error = Some key \<and> \<not> frozen error
           \<and> get_name error = (if ctor_name Base = ''SystemError'' then ''SystemError'' else [])
           \<and> read_limit e' = read_limit e"
proof -
  have m: "\<And>self. getMessage p ms key args self = Inr m"
    using assms getMessage_self by metis
  show ?thesis
    by (cases "stackTraceLimit e")
      (auto simp: NodeError_def m isErrorStackTraceLimitWritable_def assign_limit_def
        read_limit_def new_error_def define_message_def define_toString_def
        addCodeToName_def captureLargerStackTrace_def captureStackTrace_def
        capture_def trace_limit_def
        assign_name_def assigned_def read_stack_def define_name_def assign_code_def
        get_code_def get_message_def get_name_def Let_def)
qed

lemma NodeError_throws:
  assumes "getMessage p ms key args self = Inl t"
  shows "fst (NodeError p ms Base key args e) = Inl t"
proof -
  have m: "\<And>self. getMessage p ms key args self = Inl t"
    using assms getMessage_self by metis
  show ?thesis
    by (cases "stackTraceLimit e")
      (auto simp: NodeError_def m isErrorStackTraceLimitWritable_def assign_limit_def Let_def)
qed

lemma fn_lengths:
  "fn_length ERR_INVALID_MODULE_SPECIFIER_function = 2"
  "fn_length ERR_INVALID_PACKAGE_CONFIG_function = 3"
  "fn_length ERR_INVALID_PACKAGE_TARGET_function = 3"
  "fn_length ERR_MODULE_NOT_FOUND_function = 2"
  "fn_length ERR_PACKAGE_IMPORT_NOT_DEFINED_function = 3"
  "fn_length ERR_PACKAGE_PATH_NOT_EXPORTED_function = 2"
  "fn_length ERR_INVALID_ARG_VALUE_function = 2"
  "fn_length ERR_UNSUPPORTED_ESM_URL_SCHEME_function = 1"
  by (simp_all add: fn_length_def required_def optional_def
      ERR_INVALID_MODULE_SPECIFIER_function_def ERR_INVALID_PACKAGE_CONFIG_function_def
      ERR_INVALID_PACKAGE_TARGET_function_def ERR_MODULE_NOT_FOUND_function_def
      ERR_PACKAGE_IMPORT_NOT_DEFINED_function_def ERR_PACKAGE_PATH_NOT_EXPORTED_function_def
      ERR_INVALID_ARG_VALUE_function_def ERR_UNSUPPORTED_ESM_URL_SCHEME_function_def)

lemma construct_registered:
  assumes "messages loaded key = Some rule"
  shows "construct p key args e =
           Some (NodeError p (messages loaded)
                  (if key \<in> {''ERR_INVALID_MODULE_SPECIFIER'', ''ERR_PACKAGE_IMPORT_NOT_DEFINED'',
                              ''ERR_UNKNOWN_FILE_EXTENSION'', ''ERR_INVALID_ARG_VALUE''}
                   then TypeError else Error) key args e)"
  using assms
  by (simp add: construct_def codes_loaded messages_loaded makeNodeErrorWithCode_def
      split: if_splits)

lemma captureLargerStackTrace_returns:
  assumes "captureLargerStackTrace e error = (Inr error1, e1)"
  shows "\<not> frozen error
    \<and> (\<exists>st. error1 = error\<lparr>stack := st\<rparr> \<and> (st = NoTrace \<or> (\<exists>l. st = Captured l))
          \<and> ((\<exists>v w. stackTraceLimit e = DataProperty v w \<and> v \<noteq> LimitUndefined)
               \<longrightarrow> (\<exists>l. st = Captured l)))
    \<and> read_limit e1 = read_limit e"
  using assms
  by (cases "stackTraceLimit e")
    (auto simp: captureLargerStackTrace_def captureStackTrace_def capture_def trace_limit_def
      isErrorStackTraceLimitWritable_def assign_limit_def read_limit_def Let_def
      split: if_splits)

lemma registered_cases:
  assumes "messages loaded key = Some rule"
  obtains
    (MODULE_SPECIFIER) "key = ''ERR_INVALID_MODULE_SPECIFIER''"
      "rule = MessageFunction ERR_INVALID_MODULE_SPECIFIER_function"
  | (PACKAGE_CONFIG) "key = ''ERR_INVALID_PACKAGE_CONFIG''"
      "rule = MessageFunction ERR_INVALID_PACKAGE_CONFIG_function"
  | (PACKAGE_TARGET) "key = ''ERR_INVALID_PACKAGE_TARGET''"
      "rule = MessageFunction ERR_INVALID_PACKAGE_TARGET_function"
  | (MODULE_NOT_FOUND) "key = ''ERR_MODULE_NOT_FOUND''"
      "rule = MessageFunction ERR_MODULE_NOT_FOUND_function"
  | (IMPORT_NOT_DEFINED) "key = ''ERR_PACKAGE_IMPORT_NOT_DEFINED''"
      "rule = MessageFunction ERR_PACKAGE_IMPORT_NOT_DEFINED_function"
  | (PATH_NOT_EXPORTED) "key = ''ERR_PACKAGE_PATH_NOT_EXPORTED''"
      "rule = MessageFunction ERR_PACKAGE_PATH_NOT_EXPORTED_function"
  | (DIR_IMPORT) "key = ''ERR_UNSUPPORTED_DIR_IMPORT''"
      "rule = MessageString (''Directory import '' @ apostrophe @ ''%s'' @ apostrophe @
                        '' is not supported resolving ES modules imported from %s'')"
  | (FILE_EXTENSION) "key = ''ERR_UNKNOWN_FILE_EXTENSION''"
      \<open>rule = MessageString ''Unknown file extension "%s" for %s''\<close>
  | (ARG_VALUE) "key = ''ERR_INVALID_ARG_VALUE''"
      "rule = MessageFunction ERR_INVALID_ARG_VALUE_function"
  | (URL_SCHEME) "key = ''ERR_UNSUPPORTED_ESM_URL_SCHEME''"
      "rule = MessageFunction ERR_UNSUPPORTED_ESM_URL_SCHEME_function"
  using assms unfolding messages_loaded
  by (simp split: if_splits)

lemma required_counts:
  assumes "messages loaded key = Some rule"
  shows "0 < required_count rule"
  using assms
  by (cases rule: registered_cases) (simp_all add: fn_lengths apostrophe_def)

lemma length_2:
  assumes "length xs = 2" obtains a b where "xs = [a, b]"
  using assms by (cases xs; cases "tl xs") auto

lemma length_3:
  assumes "length xs = 3" obtains a b c where "xs = [a, b, c]"
  using assms by (cases xs; cases "tl xs"; cases "tl (tl xs)") auto

lemma length_1:
  assumes "length xs = 1" obtains a where "xs = [a]"
  using assms by (cases xs) auto

lemmas function_defs =
  ERR_INVALID_MODULE_SPECIFIER_function_def ERR_INVALID_PACKAGE_CONFIG_function_def
  ERR_INVALID_PACKAGE_TARGET_function_def ERR_MODULE_NOT_FOUND_function_def
  ERR_PACKAGE_IMPORT_NOT_DEFINED_function_def ERR_PACKAGE_PATH_NOT_EXPORTED_function_def
  ERR_INVALID_ARG_VALUE_function_def ERR_UNSUPPORTED_ESM_URL_SCHEME_function_def
  required_def optional_def default_value_def apply_function_def fn_length_def

lemma NodeError_Inr:
  assumes "NodeError p ms Base key args e = (Inr error, e')"
  shows "getMessage p ms key args self = Inr (get_message error)
    \<and> get_code error = Some key \<and> own_toString error = Some key \<and> \<not> frozen error
    \<and> get_name error = (if ctor_name Base = ''SystemError'' then ''SystemError'' else [])
    \<and> read_limit e' = read_limit e"
proof (cases "getMessage p ms key args self")
  case (Inl t)
  from NodeError_throws [OF Inl, where e = e and Base = Base] assms show ?thesis by simp
next
  case (Inr m)
  from NodeError_returns [OF Inr, where e = e and Base = Base] assms Inr show ?thesis by auto
qed

lemma bind_params_Nil: "bind_params ps [] = map default_value ps"
  by (induction ps) simp_all

lemma bind_params_required:
  "length args = length (takeWhile (\<lambda>q. pdefault q = None) ps)
   \<Longrightarrow> bind_params ps args = args @ map default_value (drop (length args) ps)"
proof (induction ps arbitrary: args)
  case Nil
  then show ?case by simp
next
  case (Cons q qs)
  show ?case
  proof (cases "pdefault q")
    case None
    with Cons.prems obtain a rest where args: "args = a # rest"
      and rest: "length rest = length (takeWhile (\<lambda>q. pdefault q = None) qs)"
      by (cases args) auto
    from Cons.IH [OF rest] None args show ?thesis
      by (simp add: default_value_def)
  next
    case (Some d)
    with Cons.prems have "args = []" by simp
    then show ?thesis by (simp add: bind_params_Nil)
  qed
qed

lemma returns_template_literal: "returns (template_literal pieces) = list_all returns pieces"
proof (induction pieces)
  case Nil
  show ?case by simp
next
  case (Cons piece pieces)
  then show ?case
    by (cases piece; cases "template_literal pieces") auto
qed

lemma returns_iff: "returns r \<longleftrightarrow> (\<exists>x. r = Inr x)"
  by (cases r) simp_all

lemma construct_returns_iff:
  assumes "messages loaded key = Some rule"
  shows "(\<exists>error e'. construct p key args e = Some (Inr error, e') \<and> get_code error = Some key)
           \<longleftrightarrow> returns (getMessage p (messages loaded) key args self)"
proof -
  from construct_registered [OF assms, of p args e]
  obtain Base where c: "construct p key args e = Some (NodeError p (messages loaded) Base key args e)"
    by blast
  show ?thesis
  proof (cases "getMessage p (messages loaded) key args self")
    case (Inl t)
    from NodeError_throws [OF Inl, where e = e and Base = Base]
    have "\<And>error e'. NodeError p (messages loaded) Base key args e \<noteq> (Inr error, e')"
      by auto
    with c Inl show ?thesis by simp
  next
    case (Inr m)
    from NodeError_returns [OF Inr, where e = e and Base = Base]
    obtain error e' where "NodeError p (messages loaded) Base key args e = (Inr error, e')"
      and "get_code error = Some key" by blast
    with c Inr show ?thesis by simp
  qed
qed

lemma undefined_default [simp]: "(if v = JUndefined then JUndefined else v) = v"
  by simp

lemma returns_case_sum:
  "returns (case r of Inl t \<Rightarrow> Inl t | Inr x \<Rightarrow> f x)
     = (case r of Inl t \<Rightarrow> False | Inr x \<Rightarrow> returns (f x))"
  by (cases r) simp_all

lemma stringified_returns: "returns (stringified v) = serializable v"
  by (cases v) (auto simp: stringified_def serializable_def split: sum.splits option.splits)

lemma getMessage_returns_iff:
  assumes reg: "messages loaded key = Some rule"
    and len: "length args = required_count rule"
  shows "returns (getMessage p (messages loaded) key args self) = conversions_return p key args"
  using reg
proof (cases rule: registered_cases)
  case MODULE_SPECIFIER
  with len have "length args = 2" by (simp add: fn_lengths apostrophe_def)
  then obtain a b where args: "args = [a, b]" by (rule length_2)
  from MODULE_SPECIFIER reg args
  have g: "getMessage p (messages loaded) key args self = ERR_INVALID_MODULE_SPECIFIER_message a b JUndefined"
    by (simp add: getMessage_def function_defs)
  show ?thesis unfolding g
    by (auto simp: ERR_INVALID_MODULE_SPECIFIER_message_def args MODULE_SPECIFIER(1) returns_template_literal returns_case_sum
        conversions_return_def stringifies_def simp del: template_literal.simps split: sum.splits)
next
  case PACKAGE_CONFIG
  with len have "length args = 3" by (simp add: fn_lengths apostrophe_def)
  then obtain a b c where args: "args = [a, b, c]" by (rule length_3)
  from PACKAGE_CONFIG reg args
  have g: "getMessage p (messages loaded) key args self = ERR_INVALID_PACKAGE_CONFIG_message a b c"
    by (simp add: getMessage_def function_defs)
  show ?thesis unfolding g
    by (auto simp: ERR_INVALID_PACKAGE_CONFIG_message_def args PACKAGE_CONFIG(1) returns_template_literal returns_case_sum
        conversions_return_def stringifies_def simp del: template_literal.simps split: sum.splits)
next
  case PACKAGE_TARGET
  with len have "length args = 3" by (simp add: fn_lengths apostrophe_def)
  then obtain a b c where args: "args = [a, b, c]" by (rule length_3)
  from PACKAGE_TARGET reg args
  have g: "getMessage p (messages loaded) key args self = ERR_INVALID_PACKAGE_TARGET_message a b c (JBool False) JUndefined"
    by (simp add: getMessage_def function_defs)
  show ?thesis unfolding g
    by (auto simp: ERR_INVALID_PACKAGE_TARGET_message_def stringified_returns Let_def args PACKAGE_TARGET(1) returns_template_literal returns_case_sum
        conversions_return_def stringifies_def simp del: template_literal.simps split: sum.splits)
next
  case MODULE_NOT_FOUND
  with len have "length args = 2" by (simp add: fn_lengths apostrophe_def)
  then obtain a b where args: "args = [a, b]" by (rule length_2)
  from MODULE_NOT_FOUND reg args
  have g: "getMessage p (messages loaded) key args self = ERR_MODULE_NOT_FOUND_message a b (JStr ''package'')"
    by (simp add: getMessage_def function_defs)
  show ?thesis unfolding g
    by (auto simp: ERR_MODULE_NOT_FOUND_message_def args MODULE_NOT_FOUND(1) returns_template_literal returns_case_sum
        conversions_return_def stringifies_def simp del: template_literal.simps split: sum.splits)
next
  case IMPORT_NOT_DEFINED
  with len have "length args = 3" by (simp add: fn_lengths apostrophe_def)
  then obtain a b c where args: "args = [a, b, c]" by (rule length_3)
  from IMPORT_NOT_DEFINED reg args
  have g: "getMessage p (messages loaded) key args self = ERR_PACKAGE_IMPORT_NOT_DEFINED_message a b c"
    by (simp add: getMessage_def function_defs)
  show ?thesis unfolding g
    by (auto simp: ERR_PACKAGE_IMPORT_NOT_DEFINED_message_def args IMPORT_NOT_DEFINED(1) returns_template_literal returns_case_sum
        conversions_return_def stringifies_def simp del: template_literal.simps split: sum.splits)
next
  case PATH_NOT_EXPORTED
  with len have "length args = 2" by (simp add: fn_lengths apostrophe_def)
  then obtain a b where args: "args = [a, b]" by (rule length_2)
  from PATH_NOT_EXPORTED reg args
  have g: "getMessage p (messages loaded) key args self = ERR_PACKAGE_PATH_NOT_EXPORTED_message a b JUndefined"
    by (simp add: getMessage_def function_defs)
  show ?thesis unfolding g
    by (auto simp: ERR_PACKAGE_PATH_NOT_EXPORTED_message_def args PATH_NOT_EXPORTED(1) returns_template_literal returns_case_sum
        conversions_return_def stringifies_def simp del: template_literal.simps split: sum.splits)
next
  case DIR_IMPORT
  with len have "length args = 2" by (simp add: fn_lengths apostrophe_def)
  then obtain a b where args: "args = [a, b]" by (rule length_2)
  with DIR_IMPORT reg show ?thesis
    by (simp add: getMessage_def returns_template_literal conversions_return_def
        format_rest_def apostrophe_def del: template_literal.simps)
next
  case FILE_EXTENSION
  with len have "length args = 2" by (simp add: fn_lengths apostrophe_def)
  then obtain a b where args: "args = [a, b]" by (rule length_2)
  with FILE_EXTENSION reg show ?thesis
    by (simp add: getMessage_def returns_template_literal conversions_return_def
        format_rest_def apostrophe_def del: template_literal.simps)
next
  case ARG_VALUE
  with len have "length args = 2" by (simp add: fn_lengths apostrophe_def)
  then obtain a b where args: "args = [a, b]" by (rule length_2)
  from ARG_VALUE reg args
  have g: "getMessage p (messages loaded) key args self = ERR_INVALID_ARG_VALUE_message p a b (JStr ''is invalid'')"
    by (simp add: getMessage_def function_defs)
  show ?thesis unfolding g
    by (auto simp: ERR_INVALID_ARG_VALUE_message_def Let_def args ARG_VALUE(1) returns_template_literal returns_case_sum
        conversions_return_def stringifies_def simp del: template_literal.simps split: sum.splits)
next
  case URL_SCHEME
  with len have "length args = 1" by (simp add: fn_lengths apostrophe_def)
  then obtain a where args: "args = [a]" by (rule length_1)
  from URL_SCHEME reg args
  have g: "getMessage p (messages loaded) key args self = ERR_UNSUPPORTED_ESM_URL_SCHEME_message p a"
    by (simp add: getMessage_def function_defs)
  show ?thesis unfolding g
    by (auto simp: ERR_UNSUPPORTED_ESM_URL_SCHEME_message_def Let_def args URL_SCHEME(1) returns_template_literal returns_case_sum
        conversions_return_def stringifies_def simp del: template_literal.simps split: sum.splits)
qed

section \<open>Construction with the required arguments\<close>

text \<open>
  Claim C1, as amended. For every registered code, calling its constructor with exactly
  the number of arguments its rule requires returns an error object whose \<^verbatim>\<open>code\<close> is that
  code exactly when every conversion the rule applies to those arguments returns, and
  throws otherwise. The conversions are the string conversion of an interpolated
  argument, the \<^verbatim>\<open>%s\<close> conversion of \<^verbatim>\<open>util.format\<close> for the two templates, \<^verbatim>\<open>JSON.stringify\<close> of
  the target, \<^verbatim>\<open>util.inspect\<close> of the value and \<^verbatim>\<open>name.includes\<close> for \<^verbatim>\<open>ERR_INVALID_ARG_VALUE\<close>,
  and reading \<^verbatim>\<open>url.protocol\<close> (on Windows also its \<^verbatim>\<open>length\<close>) for
  \<^verbatim>\<open>ERR_UNSUPPORTED_ESM_URL_SCHEME\<close>. This holds on every platform and in every state of
  \<^verbatim>\<open>Error.stackTraceLimit\<close>.
\<close>

theorem constructor_returns_coded_error:
  assumes "messages loaded key = Some rule"
    and "length args = required_count rule"
  shows "((\<exists>error e'. construct p key args e = Some (Inr error, e') \<and> get_code error = Some key)
            \<longleftrightarrow> conversions_return p key args)
    \<and> (\<not> conversions_return p key args
         \<longrightarrow> (\<exists>t e'. construct p key args e = Some (Inl t, e')))"
proof -
  let ?self = "new_error e Error"
  from construct_returns_iff [OF assms(1), of p args e ?self]
    getMessage_returns_iff [OF assms, of p ?self]
  have iff: "(\<exists>error e'. construct p key args e = Some (Inr error, e')
                \<and> get_code error = Some key) \<longleftrightarrow> conversions_return p key args"
    by simp
  have thrown: "\<exists>t e'. construct p key args e = Some (Inl t, e')"
    if no: "\<not> conversions_return p key args"
  proof -
    from no getMessage_returns_iff [OF assms, of p ?self]
    obtain t where g: "getMessage p (messages loaded) key args ?self = Inl t"
      by (cases "getMessage p (messages loaded) key args ?self") auto
    from construct_registered [OF assms(1), of p args e]
    obtain Base where c: "construct p key args e
        = Some (NodeError p (messages loaded) Base key args e)" by blast
    from NodeError_throws [OF g, where e = e and Base = Base] c show ?thesis
      by (cases "NodeError p (messages loaded) Base key args e") auto
  qed
  from iff thrown show ?thesis by blast
qed

text \<open>
  The witness: \<^verbatim>\<open>ERR_INVALID_PACKAGE_TARGET("/pkg/", "./x", "y")\<close>, whose conversions return, and
  \<^verbatim>\<open>ERR_UNKNOWN_FILE_EXTENSION(".xyz", o)\<close> for an object \<^verbatim>\<open>o\<close> whose \<^verbatim>\<open>toString\<close> throws, on a
  platform whose \<^verbatim>\<open>%s\<close> calls it.
\<close>

theorem constructor_returns_coded_error_witness:
  \<open>messages loaded ''ERR_INVALID_PACKAGE_TARGET''
     = Some (MessageFunction ERR_INVALID_PACKAGE_TARGET_function)
   \<and> length [JStr ''/pkg/'', JStr ''./x'', JStr ''y'']
       = required_count (MessageFunction ERR_INVALID_PACKAGE_TARGET_function)
   \<and> conversions_return example_platform ''ERR_INVALID_PACKAGE_TARGET''
         [JStr ''/pkg/'', JStr ''./x'', JStr ''y'']
   \<and> (\<exists>error e'.
         construct example_platform ''ERR_INVALID_PACKAGE_TARGET''
           [JStr ''/pkg/'', JStr ''./x'', JStr ''y''] example_env = Some (Inr error, e')
         \<and> get_code error = Some ''ERR_INVALID_PACKAGE_TARGET'')
   \<and> messages loaded ''ERR_UNKNOWN_FILE_EXTENSION''
       = Some (MessageString ''Unknown file extension "%s" for %s'')
   \<and> length [JStr ''.xyz'', throwing_toString]
       = required_count (MessageString ''Unknown file extension "%s" for %s'')
   \<and> \<not> conversions_return example_platform ''ERR_UNKNOWN_FILE_EXTENSION''
         [JStr ''.xyz'', throwing_toString]
   \<and> (\<exists>t e'.
         construct example_platform ''ERR_UNKNOWN_FILE_EXTENSION''
           [JStr ''.xyz'', throwing_toString] example_env = Some (Inl t, e'))\<close>
proof -
  have 1: "messages loaded ''ERR_INVALID_PACKAGE_TARGET''
             = Some (MessageFunction ERR_INVALID_PACKAGE_TARGET_function)"
    by (simp add: messages_loaded)
  have 2: "length [JStr ''/pkg/'', JStr ''./x'', JStr ''y'']
             = required_count (MessageFunction ERR_INVALID_PACKAGE_TARGET_function)"
    by (simp add: fn_lengths)
  have 3: "conversions_return example_platform ''ERR_INVALID_PACKAGE_TARGET''
             [JStr ''/pkg/'', JStr ''./x'', JStr ''y'']"
    by (simp add: conversions_return_def stringifies_def serializable_def)
  have 4: \<open>messages loaded ''ERR_UNKNOWN_FILE_EXTENSION''
             = Some (MessageString ''Unknown file extension "%s" for %s'')\<close>
    by (simp add: messages_loaded)
  have 5: \<open>length [JStr ''.xyz'', throwing_toString]
             = required_count (MessageString ''Unknown file extension "%s" for %s'')\<close>
    by simp
  have 6: "\<not> conversions_return example_platform ''ERR_UNKNOWN_FILE_EXTENSION''
             [JStr ''.xyz'', throwing_toString]"
    by (simp add: conversions_return_def format_placeholder_def example_platform_def
        throwing_toString_def)
  from constructor_returns_coded_error [OF 1 2, of example_platform example_env]
    constructor_returns_coded_error [OF 4 5, of example_platform example_env] 1 2 3 4 5 6
  show ?thesis by simp
qed

text \<open>
  The claim as stated, for every argument list of the required length, fails:
  \<^verbatim>\<open>ERR_UNSUPPORTED_ESM_URL_SCHEME(undefined)\<close> has the one argument its rule requires, and the
  rule reads \<^verbatim>\<open>url.protocol\<close> of it, which throws a TypeError;
  \<^verbatim>\<open>ERR_INVALID_PACKAGE_TARGET("/pkg/", "./x", 10n)\<close> has the three arguments its rule requires,
  each of its declared type, and \<^verbatim>\<open>JSON.stringify\<close> throws a TypeError on the BigInt.
\<close>

theorem constructor_throws_counterexample:
  "messages loaded ''ERR_UNSUPPORTED_ESM_URL_SCHEME''
     = Some (MessageFunction ERR_UNSUPPORTED_ESM_URL_SCHEME_function)
   \<and> length [JUndefined]
       = required_count (MessageFunction ERR_UNSUPPORTED_ESM_URL_SCHEME_function)
   \<and> map_option fst
         (construct example_platform ''ERR_UNSUPPORTED_ESM_URL_SCHEME'' [JUndefined] example_env)
       = Some (Inl (TypeError_thrown (ReadPropertyOfNullish ''protocol'')))
   \<and> messages loaded ''ERR_INVALID_PACKAGE_TARGET''
       = Some (MessageFunction ERR_INVALID_PACKAGE_TARGET_function)
   \<and> length [JStr ''/pkg/'', JStr ''./x'', JBigInt 10]
       = required_count (MessageFunction ERR_INVALID_PACKAGE_TARGET_function)
   \<and> have_declared_types (MessageFunction ERR_INVALID_PACKAGE_TARGET_function)
         [JStr ''/pkg/'', JStr ''./x'', JBigInt 10]
   \<and> map_option fst
         (construct example_platform ''ERR_INVALID_PACKAGE_TARGET''
            [JStr ''/pkg/'', JStr ''./x'', JBigInt 10] example_env)
       = Some (Inl (TypeError_thrown CannotSerializeBigInt))"
proof -
  have g: "getMessage example_platform (messages loaded) ''ERR_UNSUPPORTED_ESM_URL_SCHEME''
             [JUndefined] (new_error example_env Error)
           = Inl (TypeError_thrown (ReadPropertyOfNullish ''protocol''))"
    by (simp add: getMessage_def messages_loaded function_defs
        ERR_UNSUPPORTED_ESM_URL_SCHEME_message_def example_platform_def)
  have c: "construct example_platform ''ERR_UNSUPPORTED_ESM_URL_SCHEME'' [JUndefined] example_env
           = Some (NodeError example_platform (messages loaded) Error
                    ''ERR_UNSUPPORTED_ESM_URL_SCHEME'' [JUndefined] example_env)"
    by (simp add: construct_def codes_loaded makeNodeErrorWithCode_def)
  have g': "getMessage example_platform (messages loaded) ''ERR_INVALID_PACKAGE_TARGET''
             [JStr ''/pkg/'', JStr ''./x'', JBigInt 10] (new_error example_env Error)
           = Inl (TypeError_thrown CannotSerializeBigInt)"
    by (simp add: getMessage_def messages_loaded function_defs
        ERR_INVALID_PACKAGE_TARGET_message_def stringified_def)
  have c': "construct example_platform ''ERR_INVALID_PACKAGE_TARGET''
             [JStr ''/pkg/'', JStr ''./x'', JBigInt 10] example_env
           = Some (NodeError example_platform (messages loaded) Error
                    ''ERR_INVALID_PACKAGE_TARGET'' [JStr ''/pkg/'', JStr ''./x'', JBigInt 10]
                    example_env)"
    by (simp add: construct_def codes_loaded makeNodeErrorWithCode_def)
  have t: "have_declared_types (MessageFunction ERR_INVALID_PACKAGE_TARGET_function)
         [JStr ''/pkg/'', JStr ''./x'', JBigInt 10]"
    by (simp add: ERR_INVALID_PACKAGE_TARGET_function_def required_def optional_def)
  from NodeError_throws [OF g, where e = example_env and Base = Error] c
    NodeError_throws [OF g', where e = example_env and Base = Error] c' t
  show ?thesis
    by (simp add: messages_loaded fn_lengths)
qed

section \<open>The argument-count assertions\<close>

text \<open>
  Claim C2, as amended. For every registered code: an argument list shorter than the
  count the rule requires (the \<^verbatim>\<open>length\<close> of a message function, the number of placeholders
  of a template) makes message resolution fail with the argument-count assertion, whose
  diagnostic names the code and both counts; in particular one argument fewer than
  required always does, and every registered rule requires at least one argument. A
  longer list fails in the same way for a template; for a message function it is accepted,
  and the function is called with it.
\<close>

theorem argument_count_assertion:
  assumes "messages loaded key = Some rule"
  shows "0 < required_count rule
    \<and> (length args < required_count rule \<longrightarrow>
         getMessage p (messages loaded) key args self
           = Inl (AssertionError
                   (Some (arity_diagnostic key (length args) (required_count rule)))))
    \<and> (required_count rule < length args \<longrightarrow>
         (case rule of
            MessageString template \<Rightarrow>
              getMessage p (messages loaded) key args self
                = Inl (AssertionError
                        (Some (arity_diagnostic key (length args) (required_count rule))))
          | MessageFunction f \<Rightarrow>
              getMessage p (messages loaded) key args self = apply_function p f args))"
  using assms required_counts [OF assms]
  by (cases rule) (simp_all add: getMessage_def Let_def)

text \<open>
  The witness: one argument for \<^verbatim>\<open>ERR_MODULE_NOT_FOUND\<close> (two required) is refused; three
  arguments for the template of \<^verbatim>\<open>ERR_UNKNOWN_FILE_EXTENSION\<close> (two placeholders) are
  refused.
\<close>

theorem argument_count_assertion_witness:
  \<open>messages loaded ''ERR_MODULE_NOT_FOUND'' = Some (MessageFunction ERR_MODULE_NOT_FOUND_function)
   \<and> length [JStr ''a''] < required_count (MessageFunction ERR_MODULE_NOT_FOUND_function)
   \<and> getMessage example_platform (messages loaded) ''ERR_MODULE_NOT_FOUND'' [JStr ''a'']
         (new_error example_env Error)
       = Inl (AssertionError (Some (''Code: ERR_MODULE_NOT_FOUND; The provided arguments '' @
               ''length (1) does not match the required ones (2).'')))
   \<and> messages loaded ''ERR_UNKNOWN_FILE_EXTENSION''
       = Some (MessageString ''Unknown file extension "%s" for %s'')
   \<and> required_count (MessageString ''Unknown file extension "%s" for %s'')
       < length [JStr ''a'', JStr ''b'', JStr ''c'']
   \<and> getMessage example_platform (messages loaded) ''ERR_UNKNOWN_FILE_EXTENSION''
         [JStr ''a'', JStr ''b'', JStr ''c''] (new_error example_env TypeError)
       = Inl (AssertionError (Some (''Code: ERR_UNKNOWN_FILE_EXTENSION; The provided arguments '' @
               ''length (3) does not match the required ones (2).'')))\<close>
proof -
  have 1: "messages loaded ''ERR_MODULE_NOT_FOUND''
             = Some (MessageFunction ERR_MODULE_NOT_FOUND_function)"
    by (simp add: messages_loaded)
  have 2: \<open>messages loaded ''ERR_UNKNOWN_FILE_EXTENSION''
             = Some (MessageString ''Unknown file extension "%s" for %s'')\<close>
    by (simp add: messages_loaded)
  have d: "to_decimal (Suc 0) = ''1''" "to_decimal 2 = ''2''"
    "to_decimal (Suc (Suc 0)) = ''2''" "to_decimal (Suc (Suc (Suc 0))) = ''3''"
    by (simp_all add: to_decimal.simps digits_def)
  from argument_count_assertion [OF 1, of "[JStr ''a'']" example_platform
         "new_error example_env Error"]
       argument_count_assertion [OF 2, of "[JStr ''a'', JStr ''b'', JStr ''c'']" example_platform
         "new_error example_env TypeError"] 1 2
  show ?thesis by (simp add: fn_lengths arity_diagnostic_def d)
qed

text \<open>
  The claim as stated, in either direction, fails for a message function: three arguments
  for \<^verbatim>\<open>ERR_MODULE_NOT_FOUND\<close>, whose rule requires two, produce a message.
\<close>

theorem surplus_argument_counterexample:
  "messages loaded ''ERR_MODULE_NOT_FOUND'' = Some (MessageFunction ERR_MODULE_NOT_FOUND_function)
   \<and> required_count (MessageFunction ERR_MODULE_NOT_FOUND_function) = 2
   \<and> length [JStr ''a'', JStr ''b'', JStr ''c''] = 3
   \<and> getMessage example_platform (messages loaded) ''ERR_MODULE_NOT_FOUND''
         [JStr ''a'', JStr ''b'', JStr ''c''] (new_error example_env Error)
       = Inr ''Cannot find c 'a' imported from b''"
  by (simp add: messages_loaded getMessage_def function_defs ERR_MODULE_NOT_FOUND_message_def
      apostrophe_def)

section \<open>Codes that were never registered\<close>

text \<open>
  Claim C3, as amended. For every code string that was never registered and every
  argument list, resolving a message fails, and so does a constructor made for that code;
  no message is produced. The failure is not an assertion: it is the TypeError the runtime
  throws when \<^verbatim>\<open>match\<close> is read of \<^verbatim>\<open>undefined\<close>, and nothing in it names the code.
\<close>

theorem unregistered_code_type_error:
  assumes "key \<notin> dom (messages loaded)"
  shows "getMessage p (messages loaded) key args self
           = Inl (TypeError_thrown (ReadPropertyOfNullish ''match''))
    \<and> fst (NodeError p (messages loaded) Base key args e)
           = Inl (TypeError_thrown (ReadPropertyOfNullish ''match''))"
proof -
  from assms have "messages loaded key = None" by auto
  then have g: "getMessage p (messages loaded) key args self
           = Inl (TypeError_thrown (ReadPropertyOfNullish ''match''))"
    by (simp add: getMessage_def)
  from NodeError_throws [OF g, where e = e and Base = Base] g show ?thesis by simp
qed

theorem unregistered_code_type_error_witness:
  "''ERR_NOT_REGISTERED'' \<notin> dom (messages loaded)
   \<and> getMessage example_platform (messages loaded) ''ERR_NOT_REGISTERED''
         [JStr ''a''] (new_error example_env Error)
       = Inl (TypeError_thrown (ReadPropertyOfNullish ''match''))
   \<and> fst (NodeError example_platform (messages loaded) Error ''ERR_NOT_REGISTERED''
         [JStr ''a''] example_env)
       = Inl (TypeError_thrown (ReadPropertyOfNullish ''match''))"
proof -
  have 1: "''ERR_NOT_REGISTERED'' \<notin> dom (messages loaded)"
    by (simp add: messages_loaded)
  from unregistered_code_type_error [OF 1] 1 show ?thesis by simp
qed

text \<open>
  The claim as stated fails: for the unregistered code \<^verbatim>\<open>ERR_NOT_REGISTERED\<close> the result is
  that TypeError, not an AssertionError with a diagnostic.
\<close>

theorem unregistered_code_counterexample:
  "messages loaded ''ERR_NOT_REGISTERED'' = None
   \<and> getMessage example_platform (messages loaded) ''ERR_NOT_REGISTERED'' []
         (new_error example_env Error)
       = Inl (TypeError_thrown (ReadPropertyOfNullish ''match''))"
  by (simp add: getMessage_def messages_loaded)

section \<open>The trace limit around the capture\<close>

text \<open>
  Claim C4, as amended. When the capture step returns (the error object is not frozen),
  the trace-capture routine returns too, and \<^verbatim>\<open>Error.stackTraceLimit\<close> reads afterwards as it
  did before. When the limit is not writable, the routine leaves the whole global state as
  it was and does nothing but the capture step: it fails only if that step fails.
\<close>

theorem capture_restores_limit:
  "(\<not> frozen error \<longrightarrow>
      (\<exists>error'. fst (captureLargerStackTrace e error) = Inr error')
      \<and> read_limit (snd (captureLargerStackTrace e error)) = read_limit e)
   \<and> (\<not> isErrorStackTraceLimitWritable e \<longrightarrow>
      snd (captureLargerStackTrace e error) = e
      \<and> fst (captureLargerStackTrace e error) = captureStackTrace e error)"
  by (cases "stackTraceLimit e")
    (auto simp: captureLargerStackTrace_def isErrorStackTraceLimitWritable_def
      assign_limit_def read_limit_def captureStackTrace_def Let_def split: sum.splits)

text \<open>
  The witness: a fresh error under a writable limit of 10, and a fresh error after
  \<^verbatim>\<open>Object.freeze(Error)\<close>.
\<close>

theorem capture_restores_limit_witness:
  "\<not> frozen (new_error example_env Error)
   \<and> read_limit (snd (captureLargerStackTrace example_env (new_error example_env Error)))
       = LimitNumber 10
   \<and> \<not> isErrorStackTraceLimitWritable frozen_env
   \<and> captureLargerStackTrace frozen_env (new_error frozen_env Error)
       = (Inr (new_error frozen_env Error), frozen_env)"
  using capture_restores_limit [of "new_error example_env Error" example_env]
    capture_restores_limit [of "new_error frozen_env Error" frozen_env]
  by (simp add: new_error_def example_env_def frozen_env_def read_limit_def
      isErrorStackTraceLimitWritable_def captureStackTrace_def prod_eq_iff)

text \<open>
  The claim as stated fails on the exit path where the capture step throws: there is no
  \<^verbatim>\<open>try\<close>/\<^verbatim>\<open>finally\<close>, so for a frozen error object under a writable limit of 10 the
  TypeError propagates and the limit stays at \<^verbatim>\<open>Infinity\<close>.
\<close>

theorem capture_leaves_limit_raised_counterexample:
  "captureLargerStackTrace example_env ((new_error example_env Error)\<lparr>frozen := True\<rparr>)
     = (Inl (TypeError_thrown (ObjectNotExtensible ''stack'')),
        example_env\<lparr>stackTraceLimit := DataProperty LimitInfinity True,
                     userStackTraceLimit := LimitNumber 10\<rparr>)
   \<and> read_limit example_env = LimitNumber 10
   \<and> read_limit (snd (captureLargerStackTrace example_env
                          ((new_error example_env Error)\<lparr>frozen := True\<rparr>))) = LimitInfinity"
  by (simp add: captureLargerStackTrace_def isErrorStackTraceLimitWritable_def
      assign_limit_def read_limit_def captureStackTrace_def example_env_def new_error_def)

section \<open>String conversion\<close>

text \<open>
  Claim C5. For every error a constructor returns, \<^verbatim>\<open>toString()\<close> is exactly
  \<^verbatim>\<open><name> [<code>]: <message>\<close> with the error's name, the code it was registered under and
  its message; and since the method reads \<^verbatim>\<open>name\<close> and \<^verbatim>\<open>message\<close> when it is called, the
  same holds with the current values after either has been assigned anew.
\<close>

theorem toString_of_constructed_error:
  assumes "NodeError p ms Base key args e = (Inr error, e')"
  shows "toString error = get_name error @ '' ['' @ key @ '']: '' @ get_message error
    \<and> (\<forall>n m error1 error2.
          assign_name error n = Inr error1 \<and> assign_message error1 m = Inr error2
          \<longrightarrow> get_name error2 = n \<and> get_message error2 = m
              \<and> toString error2 = n @ '' ['' @ key @ '']: '' @ m)"
proof -
  from NodeError_Inr [OF assms]
  have t: "own_toString error = Some key" and f: "\<not> frozen error" by auto
  show ?thesis using t f
    by (auto simp: toString_def assign_name_def assign_message_def get_name_def
        get_message_def assigned_def split: option.splits)
qed

text \<open>The witness: \<^verbatim>\<open>ERR_MODULE_NOT_FOUND("a", "b")\<close>, then renamed and given a new message.\<close>

theorem toString_of_constructed_error_witness:
  "(\<exists>error e' error1 error2.
      NodeError example_platform (messages loaded) Error ''ERR_MODULE_NOT_FOUND''
        [JStr ''a'', JStr ''b''] example_env = (Inr error, e')
      \<and> toString error = '' [ERR_MODULE_NOT_FOUND]: Cannot find package 'a' imported from b''
      \<and> assign_name error ''Oops'' = Inr error1 \<and> assign_message error1 ''gone'' = Inr error2
      \<and> toString error2 = ''Oops [ERR_MODULE_NOT_FOUND]: gone'')"
proof -
  have g: "getMessage example_platform (messages loaded) ''ERR_MODULE_NOT_FOUND''
             [JStr ''a'', JStr ''b''] (new_error example_env Error)
           = Inr ''Cannot find package 'a' imported from b''"
    by (simp add: messages_loaded getMessage_def function_defs ERR_MODULE_NOT_FOUND_message_def
        apostrophe_def)
  from NodeError_returns [OF g, where e = example_env and Base = Error]
  obtain error e' where n: "NodeError example_platform (messages loaded) Error
        ''ERR_MODULE_NOT_FOUND'' [JStr ''a'', JStr ''b''] example_env = (Inr error, e')"
    and m: "get_message error = ''Cannot find package 'a' imported from b''"
    and nm: "get_name error = []" and f: "\<not> frozen error"
    by (auto simp: Error_def)
  obtain error1 where a1: "assign_name error ''Oops'' = Inr error1" and f1: "\<not> frozen error1"
    using f by (simp add: assign_name_def)
  obtain error2 where a2: "assign_message error1 ''gone'' = Inr error2"
    using f1 by (simp add: assign_message_def)
  from toString_of_constructed_error [OF n] a1 a2 m nm
  have "toString error = '' [ERR_MODULE_NOT_FOUND]: Cannot find package 'a' imported from b''"
    and "toString error2 = ''Oops [ERR_MODULE_NOT_FOUND]: gone''"
    by auto
  with n a1 a2 show ?thesis by blast
qed

section \<open>The name after the capture\<close>

text \<open>
  Claim C6. When \<^verbatim>\<open>addCodeToName\<close> returns, the name has been reset: for the name
  \<^verbatim>\<open>SystemError\<close> to that name, by a property definition that is not enumerable; for every
  other name to the empty string. And when the trace limit is a number held in a data
  property of \<^verbatim>\<open>Error\<close>, so that a trace is captured, that trace has been formatted under
  the temporary name \<^verbatim>\<open><name> [<code>]\<close>, which heads it.
\<close>

theorem addCodeToName_resets_name:
  assumes "addCodeToName e error name code = (Inr error', e')"
  shows "((\<exists>v w. stackTraceLimit e = DataProperty v w \<and> v \<noteq> LimitUndefined) \<longrightarrow>
           (\<exists>l. stack error' =
              Formatted (if get_message error = [] then name @ '' ['' @ code @ '']''
                         else name @ '' ['' @ code @ '']: '' @ get_message error) l))
    \<and> (name = ''SystemError'' \<longrightarrow>
          own_name error' = Some \<lparr>pvalue = ''SystemError'', enumerable = False\<rparr>)
    \<and> (name \<noteq> ''SystemError'' \<longrightarrow> get_name error' = [])"
proof -
  obtain error1 e1 where c: "captureLargerStackTrace e error = (Inr error1, e1)"
    using assms
    by (cases "captureLargerStackTrace e error"; cases "fst (captureLargerStackTrace e error)")
       (auto simp: addCodeToName_def)
  from captureLargerStackTrace_returns [OF c]
  obtain st where nf: "\<not> frozen error" and e1: "error1 = error\<lparr>stack := st\<rparr>"
    and st: "st = NoTrace \<or> (\<exists>l. st = Captured l)"
    and num: "(\<exists>v w. stackTraceLimit e = DataProperty v w \<and> v \<noteq> LimitUndefined)
               \<longrightarrow> (\<exists>l. st = Captured l)"
    by blast
  from assms nf have r: "error' =
      (let named = read_stack (error\<lparr>stack := st, own_name :=
                     assigned (own_name error) (name @ '' ['' @ code @ '']'')\<rparr>)
       in if name = ''SystemError''
          then named\<lparr>own_name := Some \<lparr>pvalue = name, enumerable = False\<rparr>\<rparr>
          else named\<lparr>own_name := assigned (own_name named) []\<rparr>)"
    by (auto simp: addCodeToName_def c e1 assign_name_def define_name_def read_stack_def Let_def
        split: stack_trace.splits)
  have names: "(name = ''SystemError'' \<longrightarrow>
          own_name error' = Some \<lparr>pvalue = ''SystemError'', enumerable = False\<rparr>)
    \<and> (name \<noteq> ''SystemError'' \<longrightarrow> get_name error' = [])"
    unfolding r
    by (auto simp: Let_def get_name_def assigned_def read_stack_def
        split: option.splits stack_trace.splits)
  have trace: "\<exists>l. stack error' =
      Formatted (if get_message error = [] then name @ '' ['' @ code @ '']''
                 else name @ '' ['' @ code @ '']: '' @ get_message error) l"
    if "\<exists>v w. stackTraceLimit e = DataProperty v w \<and> v \<noteq> LimitUndefined"
  proof -
    from that num obtain l where "st = Captured l" by blast
    then show ?thesis unfolding r
      by (auto simp: Let_def read_stack_def header_def get_name_def get_message_def
          assigned_def split: option.splits)
  qed
  from names trace show ?thesis by blast
qed

text \<open>The witness: a fresh TypeError, and a fresh error of a constructor named SystemError.\<close>

theorem addCodeToName_resets_name_witness:
  "stackTraceLimit example_env = DataProperty (LimitNumber 10) True
   \<and> (\<exists>error' e'.
      addCodeToName example_env (new_error example_env TypeError) ''TypeError'' ''ERR_X''
        = (Inr error', e')
      \<and> stack error' = Formatted ''TypeError [ERR_X]'' LimitInfinity
      \<and> get_name error' = [])
   \<and> (\<exists>error' e'.
      addCodeToName example_env
        (new_error example_env \<lparr>ctor_name = ''SystemError'', prototype_name = ''Error''\<rparr>)
        ''SystemError'' ''ERR_X'' = (Inr error', e')
      \<and> stack error' = Formatted ''SystemError [ERR_X]'' LimitInfinity
      \<and> own_name error' = Some \<lparr>pvalue = ''SystemError'', enumerable = False\<rparr>)"
proof -
  have 1: "addCodeToName example_env (new_error example_env TypeError) ''TypeError'' ''ERR_X''
     = (Inr \<lparr>base = TypeError, frozen = False,
             own_name = Some \<lparr>pvalue = [], enumerable = True\<rparr>,
             own_message = None, own_toString = None, own_code = None,
             stack = Formatted ''TypeError [ERR_X]'' LimitInfinity\<rparr>,
        example_env\<lparr>userStackTraceLimit := LimitNumber 10\<rparr>)"
    by (simp add: addCodeToName_def captureLargerStackTrace_def captureStackTrace_def
        isErrorStackTraceLimitWritable_def assign_limit_def read_limit_def assign_name_def
        read_stack_def header_def get_name_def get_message_def assigned_def new_error_def
        capture_def trace_limit_def example_env_def)
  have 2: "addCodeToName example_env
         (new_error example_env \<lparr>ctor_name = ''SystemError'', prototype_name = ''Error''\<rparr>)
         ''SystemError'' ''ERR_X''
     = (Inr \<lparr>base = \<lparr>ctor_name = ''SystemError'', prototype_name = ''Error''\<rparr>, frozen = False,
             own_name = Some \<lparr>pvalue = ''SystemError'', enumerable = False\<rparr>,
             own_message = None, own_toString = None, own_code = None,
             stack = Formatted ''SystemError [ERR_X]'' LimitInfinity\<rparr>,
        example_env\<lparr>userStackTraceLimit := LimitNumber 10\<rparr>)"
    by (simp add: addCodeToName_def captureLargerStackTrace_def captureStackTrace_def
        isErrorStackTraceLimitWritable_def assign_limit_def read_limit_def assign_name_def
        define_name_def read_stack_def header_def get_name_def get_message_def assigned_def
        new_error_def capture_def trace_limit_def example_env_def)
  from addCodeToName_resets_name [OF 1] addCodeToName_resets_name [OF 2] 1 2
  show ?thesis by (simp add: get_message_def new_error_def example_env_def)
qed

section \<open>Truncation of an inspected value\<close>

text \<open>
  Claim C7. In the message of \<^verbatim>\<open>ERR_INVALID_ARG_VALUE\<close>, whatever \<^verbatim>\<open>util.inspect\<close> renders for
  the value: a rendering longer than 128 characters is embedded as its first 128 characters
  followed by \<^verbatim>\<open>...\<close>, and a rendering of 128 characters or fewer is embedded unchanged.
  This holds with the default reason and with a reason given.
\<close>

theorem invalid_arg_value_truncates:
  assumes "inspect p v = Inr rendering"
  shows "(128 < length rendering \<longrightarrow>
      getMessage p (messages loaded) ''ERR_INVALID_ARG_VALUE'' [JStr name, v] self
        = Inr (''The '' @ (if CHR ''.'' \<in> set name then ''property'' else ''argument'') @ '' '' @
               apostrophe @ name @ apostrophe @ '' is invalid. Received '' @
               take 128 rendering @ ''...'')
      \<and> getMessage p (messages loaded) ''ERR_INVALID_ARG_VALUE'' [JStr name, v, JStr reason] self
        = Inr (''The '' @ (if CHR ''.'' \<in> set name then ''property'' else ''argument'') @ '' '' @
               apostrophe @ name @ apostrophe @ '' '' @ reason @ ''. Received '' @
               take 128 rendering @ ''...''))
   \<and> (length rendering \<le> 128 \<longrightarrow>
      getMessage p (messages loaded) ''ERR_INVALID_ARG_VALUE'' [JStr name, v] self
        = Inr (''The '' @ (if CHR ''.'' \<in> set name then ''property'' else ''argument'') @ '' '' @
               apostrophe @ name @ apostrophe @ '' is invalid. Received '' @ rendering)
      \<and> getMessage p (messages loaded) ''ERR_INVALID_ARG_VALUE'' [JStr name, v, JStr reason] self
        = Inr (''The '' @ (if CHR ''.'' \<in> set name then ''property'' else ''argument'') @ '' '' @
               apostrophe @ name @ apostrophe @ '' '' @ reason @ ''. Received '' @ rendering))"
proof -
  have 2: "getMessage p (messages loaded) ''ERR_INVALID_ARG_VALUE'' [JStr name, v] self
             = ERR_INVALID_ARG_VALUE_message p (JStr name) v (JStr ''is invalid'')"
    by (simp add: getMessage_def messages_loaded function_defs)
  have 3: "getMessage p (messages loaded) ''ERR_INVALID_ARG_VALUE''
             [JStr name, v, JStr reason] self
             = ERR_INVALID_ARG_VALUE_message p (JStr name) v (JStr reason)"
    by (simp add: getMessage_def messages_loaded function_defs)
  show ?thesis
    unfolding 2 3 using assms
    by (simp add: ERR_INVALID_ARG_VALUE_message_def Let_def)
qed

text \<open>
  The witness: a string of 500 characters, which the example \<^verbatim>\<open>inspect\<close> renders in 502, and
  a string of three.
\<close>

theorem invalid_arg_value_truncates_witness:
  "inspect example_platform (JStr (replicate 500 CHR ''x''))
     = Inr (apostrophe @ replicate 500 CHR ''x'' @ apostrophe)
   \<and> 128 < length (apostrophe @ replicate 500 CHR ''x'' @ apostrophe)
   \<and> getMessage example_platform (messages loaded) ''ERR_INVALID_ARG_VALUE''
         [JStr ''opts.x'', JStr (replicate 500 CHR ''x'')] (new_error example_env TypeError)
       = Inr (''The property 'opts.x' is invalid. Received '' @ apostrophe @
              replicate 127 CHR ''x'' @ ''...'')
   \<and> inspect example_platform (JStr ''abc'') = Inr (apostrophe @ ''abc'' @ apostrophe)
   \<and> length (apostrophe @ ''abc'' @ apostrophe) \<le> 128
   \<and> getMessage example_platform (messages loaded) ''ERR_INVALID_ARG_VALUE''
         [JStr ''x'', JStr ''abc''] (new_error example_env TypeError)
       = Inr (''The argument 'x' is invalid. Received 'abc'' @ apostrophe)"
proof -
  have 1: "inspect example_platform (JStr (replicate 500 CHR ''x''))
             = Inr (apostrophe @ replicate 500 CHR ''x'' @ apostrophe)"
    by (simp add: example_platform_def)
  have 2: "take 128 (apostrophe @ replicate 500 CHR ''x'' @ apostrophe)
             = apostrophe @ replicate 127 CHR ''x''"
    by (simp add: apostrophe_def take_Cons')
  have 3: "inspect example_platform (JStr ''abc'') = Inr (apostrophe @ ''abc'' @ apostrophe)"
    by (simp add: example_platform_def)
  from invalid_arg_value_truncates [OF 1, of "''opts.x''" "new_error example_env TypeError"
         "''is invalid''"]
       invalid_arg_value_truncates [OF 3, of "''x''" "new_error example_env TypeError"
         "''is invalid''"] 1 3
  show ?thesis by (simp add: 2) (simp add: apostrophe_def)
qed

section \<open>A template with two placeholders\<close>

text \<open>
  Claim C8. Constructing \<^verbatim>\<open>ERR_UNKNOWN_FILE_EXTENSION\<close> with the two arguments \<^verbatim>\<open>".xyz"\<close> and
  \<^verbatim>\<open>"/a/b.xyz"\<close> returns an error whose message is exactly
  \<^verbatim>\<open>Unknown file extension ".xyz" for /a/b.xyz\<close> and whose \<^verbatim>\<open>code\<close> is
  \<^verbatim>\<open>ERR_UNKNOWN_FILE_EXTENSION\<close>: the two \<^verbatim>\<open>%s\<close> placeholders of the template are replaced
  left to right. This holds on every platform and in every state of the trace limit.
\<close>
theorem unknown_file_extension_example:
  \<open>\<exists>error e'.
     construct p ''ERR_UNKNOWN_FILE_EXTENSION'' [JStr ''.xyz'', JStr ''/a/b.xyz''] e
       = Some (Inr error, e')
     \<and> get_message error = ''Unknown file extension ".xyz" for /a/b.xyz''
     \<and> get_code error = Some ''ERR_UNKNOWN_FILE_EXTENSION''\<close>
proof -
  let ?key = "''ERR_UNKNOWN_FILE_EXTENSION''"
  let ?args = "[JStr ''.xyz'', JStr ''/a/b.xyz'']"
  have m: \<open>getMessage p (messages loaded) ?key ?args (new_error e TypeError)
             = Inr ''Unknown file extension ".xyz" for /a/b.xyz''\<close>
    by (simp add: getMessage_def messages_loaded format_placeholder_def format_rest_def)
  have c: "construct p ?key ?args e = Some (NodeError p (messages loaded) TypeError ?key ?args e)"
    by (simp add: construct_def codes_loaded makeNodeErrorWithCode_def)
  from NodeError_returns [OF m, where e = e and Base = TypeError] c show ?thesis by auto
qed

section \<open>Omitted optional parameters\<close>

text \<open>
  Claim C9. For every registered message function, a call with exactly the required
  arguments runs the function body with those arguments followed by the declared default
  of each remaining parameter. In particular, constructing
  \<^verbatim>\<open>ERR_PACKAGE_PATH_NOT_EXPORTED\<close> with \<^verbatim>\<open>"/pkg/"\<close> and \<^verbatim>\<open>"."\<close> gives the message
  \<^verbatim>\<open>No "exports" main defined in /pkg/package.json\<close>.
\<close>

theorem omitted_parameters_take_defaults:
  assumes "messages loaded key = Some (MessageFunction f)"
    and "length args = fn_length f"
  shows \<open>getMessage p (messages loaded) key args self
           = body f p (args @ map default_value (drop (fn_length f) (params f)))
    \<and> (\<exists>error e'.
          construct p ''ERR_PACKAGE_PATH_NOT_EXPORTED'' [JStr ''/pkg/'', JStr ''.''] e
            = Some (Inr error, e')
          \<and> get_message error = ''No "exports" main defined in /pkg/package.json'')\<close>
proof -
  from assms(2) have "bind_params (params f) args
      = args @ map default_value (drop (length args) (params f))"
    by (intro bind_params_required) (simp add: fn_length_def)
  with assms have 1: "getMessage p (messages loaded) key args self
           = body f p (args @ map default_value (drop (fn_length f) (params f)))"
    by (simp add: getMessage_def apply_function_def)
  have m: \<open>getMessage p (messages loaded) ''ERR_PACKAGE_PATH_NOT_EXPORTED''
             [JStr ''/pkg/'', JStr ''.''] (new_error e Error)
           = Inr ''No "exports" main defined in /pkg/package.json''\<close>
    by (simp add: getMessage_def messages_loaded function_defs
        ERR_PACKAGE_PATH_NOT_EXPORTED_message_def)
  have c: "construct p ''ERR_PACKAGE_PATH_NOT_EXPORTED'' [JStr ''/pkg/'', JStr ''.''] e
           = Some (NodeError p (messages loaded) Error ''ERR_PACKAGE_PATH_NOT_EXPORTED''
                    [JStr ''/pkg/'', JStr ''.''] e)"
    by (simp add: construct_def codes_loaded makeNodeErrorWithCode_def)
  from NodeError_returns [OF m, where e = e and Base = Error] c 1 show ?thesis by auto
qed

text \<open>
  The witness: \<^verbatim>\<open>ERR_MODULE_NOT_FOUND("a", "b")\<close> runs with \<^verbatim>\<open>type\<close> bound to \<^verbatim>\<open>'package'\<close>.
\<close>

theorem omitted_parameters_take_defaults_witness:
  "messages loaded ''ERR_MODULE_NOT_FOUND'' = Some (MessageFunction ERR_MODULE_NOT_FOUND_function)
   \<and> length [JStr ''a'', JStr ''b''] = fn_length ERR_MODULE_NOT_FOUND_function
   \<and> [JStr ''a'', JStr ''b'']
       @ map default_value (drop (fn_length ERR_MODULE_NOT_FOUND_function)
                              (params ERR_MODULE_NOT_FOUND_function))
       = [JStr ''a'', JStr ''b'', JStr ''package'']
   \<and> getMessage example_platform (messages loaded) ''ERR_MODULE_NOT_FOUND''
         [JStr ''a'', JStr ''b''] (new_error example_env Error)
       = Inr ''Cannot find package 'a' imported from b''"
proof -
  have 1: "messages loaded ''ERR_MODULE_NOT_FOUND''
             = Some (MessageFunction ERR_MODULE_NOT_FOUND_function)"
    by (simp add: messages_loaded)
  have 2: "length [JStr ''a'', JStr ''b''] = fn_length ERR_MODULE_NOT_FOUND_function"
    by (simp add: fn_lengths)
  have 3: "[JStr ''a'', JStr ''b'']
       @ map default_value (drop (fn_length ERR_MODULE_NOT_FOUND_function)
                              (params ERR_MODULE_NOT_FOUND_function))
       = [JStr ''a'', JStr ''b'', JStr ''package'']"
    by (simp add: fn_lengths) (simp add: ERR_MODULE_NOT_FOUND_function_def required_def
        optional_def default_value_def)
  have 4: "body ERR_MODULE_NOT_FOUND_function example_platform
             [JStr ''a'', JStr ''b'', JStr ''package'']
           = Inr ''Cannot find package 'a' imported from b''"
    by (simp add: ERR_MODULE_NOT_FOUND_function_def ERR_MODULE_NOT_FOUND_message_def
        apostrophe_def)
  from omitted_parameters_take_defaults [OF 1 2, of example_platform
         "new_error example_env Error"] 1 2 3 4
  show ?thesis by simp
qed

section \<open>The base kinds of the registered codes\<close>

text \<open>
  Claim C10. Every constructor in \<^verbatim>\<open>codes\<close> is built on \<^verbatim>\<open>Error\<close> or \<^verbatim>\<open>TypeError\<close>, never on a
  constructor named \<^verbatim>\<open>SystemError\<close>, and is bound to the code it is stored under. So every
  error such a constructor returns has the empty string as its \<^verbatim>\<open>name\<close>, and its string
  conversion is \<^verbatim>\<open> [<code>]: \<close> followed by its message.
\<close>

theorem registered_errors_have_empty_name:
  assumes "codes loaded key = Some ctor"
  shows "(ctor_base ctor = Error \<or> ctor_base ctor = TypeError)
    \<and> ctor_name (ctor_base ctor) \<noteq> ''SystemError''
    \<and> ctor_key ctor = key
    \<and> (\<forall>p args e error e'.
          construct p key args e = Some (Inr error, e')
          \<longrightarrow> get_name error = []
              \<and> toString error = '' ['' @ key @ '']: '' @ get_message error)"
proof -
  from assms have b: "ctor_base ctor = Error \<or> ctor_base ctor = TypeError"
    and k: "ctor_key ctor = key"
    unfolding codes_loaded by (auto simp: makeNodeErrorWithCode_def split: if_splits)
  from b have s: "ctor_name (ctor_base ctor) \<noteq> ''SystemError''"
    by (auto simp: Error_def TypeError_def)
  have "get_name error = [] \<and> toString error = '' ['' @ key @ '']: '' @ get_message error"
    if c: "construct p key args e = Some (Inr error, e')" for p args e error e'
  proof -
    from c assms k
    have n: "NodeError p (messages loaded) (ctor_base ctor) key args e = (Inr error, e')"
      by (simp add: construct_def)
    from NodeError_Inr [OF n] s show ?thesis
      by (simp add: toString_def)
  qed
  with b s k show ?thesis by blast
qed

text \<open>The witness: \<^verbatim>\<open>ERR_UNKNOWN_FILE_EXTENSION(".xyz", "/a/b.xyz")\<close>.\<close>

theorem registered_errors_have_empty_name_witness:
  \<open>codes loaded ''ERR_UNKNOWN_FILE_EXTENSION''
     = Some \<lparr>ctor_base = TypeError, ctor_key = ''ERR_UNKNOWN_FILE_EXTENSION''\<rparr>
   \<and> (\<exists>error e'.
         construct example_platform ''ERR_UNKNOWN_FILE_EXTENSION''
           [JStr ''.xyz'', JStr ''/a/b.xyz''] example_env = Some (Inr error, e')
         \<and> get_name error = []
         \<and> toString error
             = '' [ERR_UNKNOWN_FILE_EXTENSION]: Unknown file extension ".xyz" for /a/b.xyz'')\<close>
proof -
  let ?key = "''ERR_UNKNOWN_FILE_EXTENSION''"
  let ?args = "[JStr ''.xyz'', JStr ''/a/b.xyz'']"
  have 1: "codes loaded ?key = Some \<lparr>ctor_base = TypeError, ctor_key = ?key\<rparr>"
    by (simp add: codes_loaded makeNodeErrorWithCode_def)
  have m: \<open>getMessage example_platform (messages loaded) ?key ?args
             (new_error example_env TypeError)
           = Inr ''Unknown file extension ".xyz" for /a/b.xyz''\<close>
    by (simp add: getMessage_def messages_loaded format_placeholder_def format_rest_def)
  have c: "construct example_platform ?key ?args example_env
           = Some (NodeError example_platform (messages loaded) TypeError ?key ?args example_env)"
    by (simp add: construct_def 1)
  from NodeError_returns [OF m, where e = example_env and Base = TypeError] c
  obtain error e' where r: "construct example_platform ?key ?args example_env
      = Some (Inr error, e')"
    and g: \<open>get_message error = ''Unknown file extension ".xyz" for /a/b.xyz''\<close>
    by auto
  from registered_errors_have_empty_name [OF 1]
  have a: "get_name error = [] \<and> toString error = '' ['' @ ?key @ '']: '' @ get_message error"
    if "construct p ?key args e = Some (Inr error, e')" for p args e error e'
    using that by blast
  from a [OF r] g
  have "get_name error = []"
    and \<open>toString error
           = '' [ERR_UNKNOWN_FILE_EXTENSION]: Unknown file extension ".xyz" for /a/b.xyz''\<close>
    by simp_all
  with 1 r show ?thesis by blast
qed

end
